theory Spec2Isabelle
  imports Main
begin

section \<open>Python values, errors and the result record\<close>

text \<open>
  A Python float, as \<^verbatim>\<open>json.loads\<close> produces one for a number with a fraction or an
  exponent and for \<^verbatim>\<open>NaN\<close>, \<^verbatim>\<open>Infinity\<close> and \<^verbatim>\<open>-Infinity\<close>. Every finite float is
  an integer divided by a power of two: \<open>Finite m k\<close> is \<open>m / 2 ^ k\<close>, so 5.25 is
  \<open>Finite 21 2\<close>. Comparisons between floats and integers are exact in Python, and so
  they are here.
\<close>

datatype pyfloat = Finite int nat | NaN | PosInf | NegInf

text \<open>
  The providers handle untyped values: cell texts, decoded JSON documents, configuration
  values. They are embedded as one datatype. A dict is an association list in insertion
  order (keys distinct, as in a Python dict).
\<close>

datatype pyval =
    PNone
  | PBool bool
  | PInt int
  | PFloat pyfloat
  | PStr string
  | PList "pyval list"
  | PDict "(string \<times> pyval) list"

datatype pyerr =
  TypeError | KeyError | AttributeError | ValueError | IndexError | AuthException

text \<open>Truth value testing (\<^verbatim>\<open>if x\<close>, \<^verbatim>\<open>not x\<close>, \<^verbatim>\<open>all([..])\<close>, \<^verbatim>\<open>x or y\<close>).\<close>

fun truthy :: "pyval \<Rightarrow> bool" where
  "truthy PNone = False"
| "truthy (PBool b) = b"
| "truthy (PInt n) = (n \<noteq> 0)"
| "truthy (PFloat (Finite m k)) = (m \<noteq> 0)"
| "truthy (PFloat f) = True"
| "truthy (PStr s) = (s \<noteq> [])"
| "truthy (PList xs) = (xs \<noteq> [])"
| "truthy (PDict kvs) = (kvs \<noteq> [])"

text \<open>\<^verbatim>\<open>x or y\<close>\<close>

definition py_or :: "pyval \<Rightarrow> pyval \<Rightarrow> pyval" where
  "py_or x y = (if truthy x then x else y)"

text \<open>Sequencing of a computation that may raise: the first exception wins.\<close>

fun and_then :: "pyerr + 'a \<Rightarrow> ('a \<Rightarrow> pyerr + 'b) \<Rightarrow> pyerr + 'b" where
  "and_then (Inl e) f = Inl e"
| "and_then (Inr v) f = f v"


text \<open>\<^verbatim>\<open>f < n\<close> for a float and an integer: false for \<^verbatim>\<open>nan\<close>.\<close>

fun float_lt :: "pyfloat \<Rightarrow> int \<Rightarrow> bool" where
  "float_lt (Finite m k) n = (m < n * 2 ^ k)"
| "float_lt NaN n = False"
| "float_lt PosInf n = False"
| "float_lt NegInf n = True"

text \<open>
  The comparison \<^verbatim>\<open>v < n\<close> against an integer: numeric for \<^verbatim>\<open>int\<close>, \<^verbatim>\<open>bool\<close> and
  \<^verbatim>\<open>float\<close>, TypeError for every other type.
\<close>

fun py_lt :: "pyval \<Rightarrow> int \<Rightarrow> pyerr + bool" where
  "py_lt (PInt a) n = Inr (a < n)"
| "py_lt (PBool b) n = Inr ((if b then 1 else 0) < n)"
| "py_lt (PFloat f) n = Inr (float_lt f n)"
| "py_lt v n = Inl TypeError"

text \<open>\<^verbatim>\<open>xs.index(x)\<close>: the first position of \<open>x\<close>, ValueError when absent.\<close>

fun list_index :: "'a list \<Rightarrow> 'a \<Rightarrow> pyerr + nat" where
  "list_index [] x = Inl ValueError"
| "list_index (y # ys) x =
     (if y = x then Inr 0 else and_then (list_index ys x) (\<lambda>i. Inr (Suc i)))"

text \<open>\<^verbatim>\<open>xs[i]\<close> for a non-negative index: IndexError out of range.\<close>

definition list_get :: "'a list \<Rightarrow> nat \<Rightarrow> pyerr + 'a" where
  "list_get xs i = (if i < length xs then Inr (xs ! i) else Inl IndexError)"

text \<open>Substring test \<^verbatim>\<open>sub in s\<close> on strings.\<close>

fun starts_with :: "string \<Rightarrow> string \<Rightarrow> bool" where
  "starts_with [] s = True"
| "starts_with (p # ps) [] = False"
| "starts_with (p # ps) (c # cs) = (p = c \<and> starts_with ps cs)"

fun contains :: "string \<Rightarrow> string \<Rightarrow> bool" where
  "contains sub [] = (sub = [])"
| "contains sub (c # cs) = (starts_with sub (c # cs) \<or> contains sub cs)"

text \<open>\<^verbatim>\<open>key in v\<close> for a string key: dict keys, list elements, substrings.\<close>

fun py_contains :: "pyval \<Rightarrow> string \<Rightarrow> pyerr + bool" where
  "py_contains (PDict kvs) k = Inr (k \<in> set (map fst kvs))"
| "py_contains (PList xs) k = Inr (PStr k \<in> set xs)"
| "py_contains (PStr s) k = Inr (contains k s)"
| "py_contains v k = Inl TypeError"

text \<open>\<^verbatim>\<open>v.get(key, default)\<close>: only a dict has the method.\<close>

fun py_get :: "pyval \<Rightarrow> string \<Rightarrow> pyval \<Rightarrow> pyerr + pyval" where
  "py_get (PDict kvs) k d = Inr (case map_of kvs k of Some v \<Rightarrow> v | None \<Rightarrow> d)"
| "py_get v k d = Inl AttributeError"

text \<open>
  \<^verbatim>\<open>v.pop(key)\<close> and \<^verbatim>\<open>v.pop(key, default)\<close>. Every key is popped at most once from
  an item and the item is not read again, so the removal is not observable and only the
  returned value is kept. A list has a \<^verbatim>\<open>pop\<close> that rejects these arguments.
\<close>

fun py_pop :: "pyval \<Rightarrow> string \<Rightarrow> pyerr + pyval" where
  "py_pop (PDict kvs) k = (case map_of kvs k of Some v \<Rightarrow> Inr v | None \<Rightarrow> Inl KeyError)"
| "py_pop (PList xs) k = Inl TypeError"
| "py_pop v k = Inl AttributeError"

fun py_pop_default :: "pyval \<Rightarrow> string \<Rightarrow> pyval \<Rightarrow> pyerr + pyval" where
  "py_pop_default (PDict kvs) k d = Inr (case map_of kvs k of Some v \<Rightarrow> v | None \<Rightarrow> d)"
| "py_pop_default (PList xs) k d = Inl TypeError"
| "py_pop_default v k d = Inl AttributeError"

text \<open>\<^verbatim>\<open>d[key]\<close> on a value known to be a dict.\<close>

fun py_subscript :: "pyval \<Rightarrow> string \<Rightarrow> pyerr + pyval" where
  "py_subscript (PDict kvs) k = (case map_of kvs k of Some v \<Rightarrow> Inr v | None \<Rightarrow> Inl KeyError)"
| "py_subscript v k = Inl TypeError"

text \<open>\<^verbatim>\<open>for item in v\<close>: the elements of a list, the keys of a dict, the characters of a string.\<close>

fun py_iter :: "pyval \<Rightarrow> pyerr + pyval list" where
  "py_iter (PList xs) = Inr xs"
| "py_iter (PDict kvs) = Inr (map (\<lambda>kv. PStr (fst kv)) kvs)"
| "py_iter (PStr s) = Inr (map (\<lambda>c. PStr [c]) s)"
| "py_iter v = Inl TypeError"

text \<open>
  The dict every provider appends to \<^verbatim>\<open>items\<close>:
  \<^verbatim>\<open>{'title', 'link', 'size', 'seeders', 'leechers', 'hash'}\<close>.
\<close>

record item =
  title :: pyval
  link :: pyval
  size_val :: pyval
  seeders :: pyval
  leechers :: pyval
  hash :: pyval

section \<open>Parsed markup\<close>

text \<open>
  A BeautifulSoup tree: a tag has a name, its multi-valued \<^verbatim>\<open>class\<close> attribute, its
  other attributes and its children; a string node carries text.
\<close>

datatype html =
    Tag string "string list" "(string \<times> string) list" "html list"
  | NavigableString string

fun descendants :: "html \<Rightarrow> html list" where
  "descendants (Tag n cls attrs cs) = concat (map (\<lambda>c. c # descendants c) cs)"
| "descendants (NavigableString s) = []"

fun tag_name :: "html \<Rightarrow> string option" where
  "tag_name (Tag n cls attrs cs) = Some n"
| "tag_name (NavigableString s) = None"

fun tag_attr :: "html \<Rightarrow> string \<Rightarrow> string option" where
  "tag_attr (Tag n cls attrs cs) k = map_of attrs k"
| "tag_attr (NavigableString s) k = None"

fun join_spaces :: "string list \<Rightarrow> string" where
  "join_spaces [] = []"
| "join_spaces [w] = w"
| "join_spaces (w # ws) = w @ '' '' @ join_spaces ws"

text \<open>A \<^verbatim>\<open>class_\<close> filter matches one of the classes or the whole attribute text.\<close>

fun has_class :: "string \<Rightarrow> html \<Rightarrow> bool" where
  "has_class c (Tag n cls attrs cs) = (c \<in> set cls \<or> (cls \<noteq> [] \<and> c = join_spaces cls))"
| "has_class c (NavigableString s) = False"

definition find_first :: "(html \<Rightarrow> bool) \<Rightarrow> html \<Rightarrow> html option" where
  "find_first p h = List.find p (descendants h)"

text \<open>\<^verbatim>\<open>tag('td')\<close>, that is \<^verbatim>\<open>tag.find_all('td')\<close>.\<close>

definition find_all :: "string \<Rightarrow> html \<Rightarrow> html list" where
  "find_all n h = filter (\<lambda>d. tag_name d = Some n) (descendants h)"

text \<open>
  The characters that \<^verbatim>\<open>str.strip()\<close> removes. A character of the model is a code
  point below 256; the blanks that Unicode has beyond are not characters of the model.
\<close>

definition is_space :: "char \<Rightarrow> bool" where
  "is_space c = (c \<in> set [CHR '' '', CHR 0x09, CHR 0x0A, CHR 0x0B, CHR 0x0C, CHR 0x0D,
                            CHR 0x1C, CHR 0x1D, CHR 0x1E, CHR 0x1F, CHR 0x85, CHR 0xA0])"

definition strip :: "string \<Rightarrow> string" where
  "strip s = rev (dropWhile is_space (rev (dropWhile is_space s)))"

fun strings_of :: "html \<Rightarrow> string list" where
  "strings_of (Tag n cls attrs cs) = concat (map strings_of cs)"
| "strings_of (NavigableString s) = [s]"

text \<open>\<^verbatim>\<open>tag.get_text()\<close> (also \<^verbatim>\<open>tag.text\<close>) and \<^verbatim>\<open>tag.get_text(strip=True)\<close>.\<close>

definition get_text :: "html \<Rightarrow> string" where
  "get_text h = concat (strings_of h)"

definition get_text_strip :: "html \<Rightarrow> string" where
  "get_text_strip h = concat (filter (\<lambda>t. t \<noteq> []) (map strip (strings_of h)))"

section \<open>Session, transport and the collaborators outside the providers\<close>

record request =
  url :: string
  params :: "(string \<times> pyval) list"
  post_data :: pyval

text \<open>
  The session of a provider: the cookie jar, as the name/value pairs that
  \<^verbatim>\<open>dict_from_cookiejar\<close> returns, and the requests sent so far.
\<close>

record session =
  cookies :: "(string \<times> string) list"
  sent :: "request list"

text \<open>
  What the network answers to a request: the body as text (\<open>None\<close> when the transport
  returns nothing), the body decoded as JSON, and the cookie jar afterwards.
\<close>

record reply =
  body_text :: "string option"
  body_json :: pyval
  new_cookies :: "(string \<times> string) list"

text \<open>
  The library functions and repository helpers the providers call but do not define are
  parameters: the network, the markup parser, URL handling, the JSON codec, regular
  expressions, \<^verbatim>\<open>int()\<close> on text (\<open>None\<close> for ValueError), \<^verbatim>\<open>convert_size(size,
  default, units)\<close> and \<^verbatim>\<open>add_cookies_from_ui\<close>.
\<close>

record env =
  transport :: "session \<Rightarrow> request \<Rightarrow> reply"
  BS4Parser :: "string \<Rightarrow> html"
  urljoin :: "string \<Rightarrow> string \<Rightarrow> string"
  urlencode :: "(string \<times> pyval) list \<Rightarrow> string"
  json_loads :: "string \<Rightarrow> pyval option"
  json_dumps :: "pyval \<Rightarrow> string"
  re_search :: "string \<Rightarrow> string \<Rightarrow> bool"
  re_sub :: "string \<Rightarrow> string \<Rightarrow> string \<Rightarrow> string"
  validators_url :: "string \<Rightarrow> bool"
  int_of_text :: "string \<Rightarrow> int option"
  convert_size :: "pyval \<Rightarrow> pyval \<Rightarrow> string list \<Rightarrow> pyval"
  add_cookies_from_ui :: "string \<Rightarrow> (string \<times> string) list \<Rightarrow> bool \<times> (string \<times> string) list"

text \<open>The options a provider reads with \<^verbatim>\<open>self.config(..)\<close>.\<close>

record config =
  username :: pyval
  password :: pyval
  passkey :: pyval
  minseed :: int
  minleech :: int
  custom_url :: string
  cookies_cfg :: string
  freeleech :: bool

text \<open>
  Modelled from the spec: \<^verbatim>\<open>get_url\<close> of the provider base class, which is not among
  the sources. One call is one network request: it is recorded in the session, the jar
  takes the cookies of the reply, and the body comes back as text (\<^verbatim>\<open>returns='text'\<close>)
  or decoded (\<^verbatim>\<open>returns='json'\<close>).
\<close>

definition get_url_text :: "env \<Rightarrow> request \<Rightarrow> session \<Rightarrow> string option \<times> session" where
  "get_url_text e req s =
     (let r = transport e s req
      in (body_text r, \<lparr>cookies = new_cookies r, sent = sent s @ [req]\<rparr>))"

definition get_url_json :: "env \<Rightarrow> request \<Rightarrow> session \<Rightarrow> pyval \<times> session" where
  "get_url_json e req s =
     (let r = transport e s req
      in (body_json r, \<lparr>cookies = new_cookies r, sent = sent s @ [req]\<rparr>))"

text \<open>\<^verbatim>\<open>int(f)\<close> on a float cuts the fraction off; it fails for \<^verbatim>\<open>nan\<close> and the infinities.\<close>

fun float_trunc :: "pyfloat \<Rightarrow> int option" where
  "float_trunc (Finite m k) = Some (if 0 \<le> m then m div 2 ^ k else - ((- m) div 2 ^ k))"
| "float_trunc f = None"

text \<open>
  Modelled from the spec: \<^verbatim>\<open>try_int\<close> of the helper module, which is not among the
  sources: coercion to an integer that substitutes 0 instead of failing. The coercion is
  \<^verbatim>\<open>int()\<close>; every value that \<^verbatim>\<open>int()\<close> rejects gives 0.
\<close>

fun try_int :: "env \<Rightarrow> pyval \<Rightarrow> int" where
  "try_int e (PInt n) = n"
| "try_int e (PBool b) = (if b then 1 else 0)"
| "try_int e (PFloat f) = (case float_trunc f of Some n \<Rightarrow> n | None \<Rightarrow> 0)"
| "try_int e (PStr s) = (case int_of_text e s of Some n \<Rightarrow> n | None \<Rightarrow> 0)"
| "try_int e v = 0"

text \<open>\<^verbatim>\<open>int(s)\<close> on text.\<close>

definition py_int :: "env \<Rightarrow> string \<Rightarrow> pyerr + int" where
  "py_int e s = (case int_of_text e s of Some n \<Rightarrow> Inr n | None \<Rightarrow> Inl ValueError)"

definition default_units :: "string list" where
  "default_units = [''B'', ''KB'', ''MB'', ''GB'', ''TB'', ''PB'']"

section \<open>The search loops shared by the providers\<close>

text \<open>
  Every \<^verbatim>\<open>search\<close> is the same pair of loops around a provider's own code for one
  search string. That code ends in one of three ways: it reaches the end of the loop body
  or a \<^verbatim>\<open>continue\<close> with the rows it appended to \<^verbatim>\<open>items\<close>; it executes
  \<^verbatim>\<open>return results\<close>; or an exception leaves \<^verbatim>\<open>search\<close>.
\<close>

datatype outcome = Cont "item list" | Return | Raise pyerr

text \<open>\<^verbatim>\<open>for search_string in search_strings[mode]\<close>, with \<^verbatim>\<open>items\<close> as accumulator.\<close>

fun strings_loop ::
  "(string \<Rightarrow> session \<Rightarrow> outcome \<times> session) \<Rightarrow> string list \<Rightarrow> item list \<Rightarrow> session
     \<Rightarrow> outcome \<times> session" where
  "strings_loop page [] items s = (Cont items, s)"
| "strings_loop page (q # qs) items s =
     (case page q s of
        (Cont rows, s') \<Rightarrow> strings_loop page qs (items @ rows) s'
      | (Return, s') \<Rightarrow> (Return, s')
      | (Raise err, s') \<Rightarrow> (Raise err, s'))"

text \<open>
  \<^verbatim>\<open>items.sort(key=lambda d: try_int(d.get('seeders', 0)), reverse=True)\<close>: Python's
  sort is stable, also with \<^verbatim>\<open>reverse=True\<close>.
\<close>

definition sort_items :: "env \<Rightarrow> item list \<Rightarrow> item list" where
  "sort_items e items = sort_key (\<lambda>d. - try_int e (seeders d)) items"

text \<open>One pass of \<^verbatim>\<open>for mode in search_strings\<close> up to the sort.\<close>

definition run_mode ::
  "env \<Rightarrow> (string \<Rightarrow> string \<Rightarrow> session \<Rightarrow> outcome \<times> session) \<Rightarrow> string \<Rightarrow> string list
     \<Rightarrow> session \<Rightarrow> outcome \<times> session" where
  "run_mode e page mode qs s =
     (case strings_loop (page mode) qs [] s of
        (Cont items, s') \<Rightarrow> (Cont (sort_items e items), s')
      | (Return, s') \<Rightarrow> (Return, s')
      | (Raise err, s') \<Rightarrow> (Raise err, s'))"

text \<open>
  \<^verbatim>\<open>for mode in search_strings: ...; results += items\<close> and the final
  \<^verbatim>\<open>return results\<close>. The mapping is the list of its (mode, search strings) entries in
  iteration order.
\<close>

fun modes_loop ::
  "env \<Rightarrow> (string \<Rightarrow> string \<Rightarrow> session \<Rightarrow> outcome \<times> session) \<Rightarrow> (string \<times> string list) list
     \<Rightarrow> item list \<Rightarrow> session \<Rightarrow> (pyerr + item list) \<times> session" where
  "modes_loop e page [] results s = (Inr results, s)"
| "modes_loop e page ((mode, qs) # rest) results s =
     (case run_mode e page mode qs s of
        (Cont items, s') \<Rightarrow> modes_loop e page rest (results @ items) s'
      | (Return, s') \<Rightarrow> (Inr results, s')
      | (Raise err, s') \<Rightarrow> (Inl err, s'))"

section \<open>Norbits\<close>

definition norbits_url :: string where
  "norbits_url = ''https://norbits.net''"

definition norbits_search_url :: string where
  "norbits_search_url = norbits_url @ ''/api2.php?action=torrents''"

definition norbits_download_url :: string where
  "norbits_download_url = norbits_url @ ''/download.php?''"

definition norbits_check_auth :: "config \<Rightarrow> pyerr + bool" where
  "norbits_check_auth cfg =
     (if \<not> truthy (username cfg) \<or> \<not> truthy (passkey cfg) then Inl AuthException
      else Inr True)"

text \<open>
  \<^verbatim>\<open>_check_auth_from_data\<close>. The warning it logs is not part of the model; the
  condition is still evaluated, left to right, because its operators can raise.
\<close>

definition norbits_check_auth_from_data :: "pyval \<Rightarrow> pyerr + bool" where
  "norbits_check_auth_from_data parsed_json =
     and_then (py_contains parsed_json ''status'') (\<lambda>has_status.
       if \<not> has_status then Inr True
       else and_then (py_contains parsed_json ''message'') (\<lambda>has_message.
         if \<not> has_message then Inr True
         else and_then (py_get parsed_json ''status'' PNone) (\<lambda>status. Inr True)))"

text \<open>The body of \<^verbatim>\<open>for item in json_items.get('torrents', [])\<close>; \<open>None\<close> is \<^verbatim>\<open>continue\<close>.\<close>

definition norbits_parse_item :: "env \<Rightarrow> config \<Rightarrow> pyval \<Rightarrow> pyerr + item option" where
  "norbits_parse_item e cfg it =
     and_then (py_pop_default it ''name'' (PStr [])) (\<lambda>title.
     and_then (py_pop_default it ''id'' (PStr [])) (\<lambda>ident.
       let download_url = PStr (norbits_download_url
                                  @ urlencode e [(''id'', ident), (''passkey'', passkey cfg)])
       in if \<not> (truthy title \<and> truthy download_url) then Inr None
          else
     and_then (py_pop_default it ''seeders'' (PInt 0)) (\<lambda>sv.
     and_then (py_pop_default it ''leechers'' (PInt 0)) (\<lambda>lv.
       let seeders = try_int e sv; leechers = try_int e lv
       in if seeders < minseed cfg \<or> leechers < minleech cfg then Inr None
          else
     and_then (py_pop_default it ''info_hash'' (PStr [])) (\<lambda>info_hash.
     and_then (py_pop_default it ''size'' (PInt (- 1))) (\<lambda>sz.
       Inr (Some \<lparr>title = title, link = download_url,
                  size_val = convert_size e sz (PInt (- 1)) default_units,
                  seeders = PInt seeders, leechers = PInt leechers,
                  hash = info_hash\<rparr>)))))))"

text \<open>The loop over the items has no handler: the first exception leaves \<^verbatim>\<open>search\<close>.\<close>

fun norbits_rows :: "env \<Rightarrow> config \<Rightarrow> pyval list \<Rightarrow> item list \<Rightarrow> pyerr + item list" where
  "norbits_rows e cfg [] items = Inr items"
| "norbits_rows e cfg (it # rest) items =
     (case norbits_parse_item e cfg it of
        Inl err \<Rightarrow> Inl err
      | Inr None \<Rightarrow> norbits_rows e cfg rest items
      | Inr (Some r) \<Rightarrow> norbits_rows e cfg rest (items @ [r]))"

text \<open>
  From \<^verbatim>\<open>if self._check_auth_from_data(parsed_json)\<close> to the end of the loop body. An
  empty \<^verbatim>\<open>json_items\<close> is only logged, and \<^verbatim>\<open>json_items.get\<close> is called all the same.
\<close>

definition norbits_parse :: "env \<Rightarrow> config \<Rightarrow> pyval \<Rightarrow> pyerr + item list" where
  "norbits_parse e cfg parsed_json =
     and_then (norbits_check_auth_from_data parsed_json) (\<lambda>ok.
       if ok then
         and_then (py_get parsed_json ''data'' (PStr [])) (\<lambda>json_items.
         and_then (py_get json_items ''torrents'' (PList [])) (\<lambda>torrents.
         and_then (py_iter torrents) (\<lambda>its. norbits_rows e cfg its [])))
       else Inr [])"

definition norbits_page ::
  "env \<Rightarrow> config \<Rightarrow> string \<Rightarrow> string \<Rightarrow> session \<Rightarrow> outcome \<times> session" where
  "norbits_page e cfg mode search_string s =
     (let post = PDict [(''username'', username cfg), (''passkey'', passkey cfg),
                        (''category'', PStr ''2''), (''search'', PStr search_string)]
      in case norbits_check_auth cfg of
           Inl err \<Rightarrow> (Raise err, s)
         | Inr ok \<Rightarrow>
             (case get_url_json e \<lparr>url = norbits_search_url, params = [],
                                   post_data = PStr (json_dumps e post)\<rparr> s of
                (parsed_json, s') \<Rightarrow>
                  if \<not> truthy parsed_json then (Return, s')
                  else (case norbits_parse e cfg parsed_json of
                          Inl err \<Rightarrow> (Raise err, s')
                        | Inr rows \<Rightarrow> (Cont rows, s'))))"

definition norbits_search ::
  "env \<Rightarrow> config \<Rightarrow> (string \<times> string list) list \<Rightarrow> session \<Rightarrow> (pyerr + item list) \<times> session" where
  "norbits_search e cfg search_strings s = modes_loop e (norbits_page e cfg) search_strings [] s"

section \<open>Ncore\<close>

definition ncore_login_url :: string where
  "ncore_login_url = ''https://ncore.cc/login.php''"

definition ncore_categories :: string where
  "ncore_categories =
     ''&kivalasztott_tipus=xvidser_hun,xvidser,dvdser_hun,dvdser,hdser_hun,hdser''"

text \<open>\<^verbatim>\<open>self.urls['search'] % (search_string)\<close>\<close>

definition ncore_search_url :: "string \<Rightarrow> string" where
  "ncore_search_url search_string =
     ''https://ncore.cc/torrents.php?nyit_sorozat_resz=true&'' @ ncore_categories
     @ ''&mire='' @ search_string
     @ ''&miben=name&tipus=kivalasztottak_kozott&submit.x=0&submit.y=0&submit=Ok''
     @ ''&tags=&searchedfrompotato=true&jsons=true''"

text \<open>A text body as a value: \<^verbatim>\<open>None\<close> or a \<^verbatim>\<open>str\<close>.\<close>

fun text_val :: "string option \<Rightarrow> pyval" where
  "text_val None = PNone"
| "text_val (Some t) = PStr t"

definition ncore_login :: "env \<Rightarrow> config \<Rightarrow> session \<Rightarrow> (pyerr + bool) \<times> session" where
  "ncore_login e cfg s =
     (let login_params = PDict [(''nev'', username cfg), (''pass'', password cfg),
                                (''submitted'', PStr ''1'')]
      in case get_url_text e \<lparr>url = ncore_login_url, params = [],
                               post_data = login_params\<rparr> s of
           (response, s') \<Rightarrow>
             (case response of
                None \<Rightarrow> (Inr False, s')
              | Some txt \<Rightarrow>
                  if txt = [] then (Inr False, s')
                  else if re_search e ''images/warning.png'' txt then (Inr False, s')
                  else (Inr True, s')))"

text \<open>The body of the \<^verbatim>\<open>try\<close> in \<^verbatim>\<open>for item in parsed_json['results']\<close>.\<close>

definition ncore_parse_item :: "env \<Rightarrow> config \<Rightarrow> pyval \<Rightarrow> pyerr + item option" where
  "ncore_parse_item e cfg it =
     and_then (py_pop it ''release_name'') (\<lambda>title.
     and_then (py_pop it ''download_url'') (\<lambda>download_url.
       if \<not> (truthy title \<and> truthy download_url) then Inr None
       else
     and_then (py_pop it ''seeders'') (\<lambda>seeders.
     and_then (py_pop it ''leechers'') (\<lambda>leechers.
     and_then (py_lt seeders (minseed cfg)) (\<lambda>few_seeders.
       if few_seeders then Inr None
       else
     and_then (py_lt leechers (minleech cfg)) (\<lambda>few_leechers.
       if few_leechers then Inr None
       else
     and_then (py_pop_default it ''size'' (PInt (- 1))) (\<lambda>torrent_size.
       let size = py_or (convert_size e torrent_size PNone default_units) (PInt (- 1))
       in Inr (Some \<lparr>title = title, link = download_url, size_val = size,
                     seeders = seeders, leechers = leechers, hash = PStr []\<rparr>))))))))"

text \<open>\<^verbatim>\<open>except Exception: continue\<close> around each item.\<close>

fun ncore_rows :: "env \<Rightarrow> config \<Rightarrow> pyval list \<Rightarrow> item list \<Rightarrow> item list" where
  "ncore_rows e cfg [] items = items"
| "ncore_rows e cfg (it # rest) items =
     (case ncore_parse_item e cfg it of
        Inl err \<Rightarrow> ncore_rows e cfg rest items
      | Inr None \<Rightarrow> ncore_rows e cfg rest items
      | Inr (Some r) \<Rightarrow> ncore_rows e cfg rest (items @ [r]))"

fun is_dict :: "pyval \<Rightarrow> bool" where
  "is_dict (PDict kvs) = True"
| "is_dict v = False"

text \<open>
  The loop body for one search string, from \<^verbatim>\<open>isinstance(parsed_json, dict)\<close> on.
  The two subscripts and the \<^verbatim>\<open>for\<close> are outside every \<^verbatim>\<open>try\<close>.
\<close>

definition ncore_parse :: "env \<Rightarrow> config \<Rightarrow> pyval \<Rightarrow> pyerr + item list" where
  "ncore_parse e cfg parsed_json =
     (if \<not> is_dict parsed_json then Inr []
      else
        and_then (py_subscript parsed_json ''total_results'') (\<lambda>torrent_results.
          if \<not> truthy torrent_results then Inr []
          else
            and_then (py_subscript parsed_json ''results'') (\<lambda>results.
            and_then (py_iter results) (\<lambda>its. Inr (ncore_rows e cfg its [])))))"

text \<open>
  The fetch and \<^verbatim>\<open>json.loads\<close>, which raises ValueError for text that is not JSON
  (caught: \<^verbatim>\<open>continue\<close>) and TypeError for \<^verbatim>\<open>None\<close> (not caught).
\<close>

definition ncore_page ::
  "env \<Rightarrow> config \<Rightarrow> string \<Rightarrow> string \<Rightarrow> session \<Rightarrow> outcome \<times> session" where
  "ncore_page e cfg mode search_string s =
     (case get_url_text e \<lparr>url = ncore_search_url search_string, params = [],
                            post_data = PNone\<rparr> s of
        (data, s') \<Rightarrow>
          (case data of
             None \<Rightarrow> (Raise TypeError, s')
           | Some txt \<Rightarrow>
               (case json_loads e txt of
                  None \<Rightarrow> (Cont [], s')
                | Some parsed_json \<Rightarrow>
                    (case ncore_parse e cfg parsed_json of
                       Inl err \<Rightarrow> (Raise err, s')
                     | Inr rows \<Rightarrow> (Cont rows, s')))))"

definition ncore_search ::
  "env \<Rightarrow> config \<Rightarrow> (string \<times> string list) list \<Rightarrow> session \<Rightarrow> (pyerr + item list) \<times> session" where
  "ncore_search e cfg search_strings s =
     (case ncore_login e cfg s of
        (Inl err, s') \<Rightarrow> (Inl err, s')
      | (Inr ok, s') \<Rightarrow>
          if \<not> ok then (Inr [], s')
          else modes_loop e (ncore_page e cfg) search_strings [] s')"

section \<open>ABNormal\<close>

definition abnormal_url :: string where
  "abnormal_url = ''https://abnormal.ws''"

definition abnormal_units :: "string list" where
  "abnormal_units = [''O'', ''KO'', ''MO'', ''GO'', ''TO'', ''PO'']"

definition abnormal_login :: "env \<Rightarrow> config \<Rightarrow> session \<Rightarrow> (pyerr + bool) \<times> session" where
  "abnormal_login e cfg s =
     (if list_ex (\<lambda>kv. snd kv \<noteq> []) (cookies s) then (Inr True, s)
      else
        let login_params = PDict [(''username'', username cfg), (''password'', password cfg)]
        in case get_url_text e \<lparr>url = urljoin e abnormal_url ''login.php'', params = [],
                                 post_data = login_params\<rparr> s of
             (response, s') \<Rightarrow>
               (case response of
                  None \<Rightarrow> (Inr False, s')
                | Some txt \<Rightarrow>
                    if txt = [] then (Inr False, s')
                    else if \<not> re_search e ''torrents.php'' txt then (Inr False, s')
                    else (Inr True, s')))"

text \<open>
  The body of \<^verbatim>\<open>for result in torrent_rows[1:]\<close>. The length test comes before the
  \<^verbatim>\<open>try\<close>; it keeps every index found in \<^verbatim>\<open>labels\<close> inside \<^verbatim>\<open>cells\<close>.
\<close>

definition abnormal_parse_row :: "env \<Rightarrow> config \<Rightarrow> string list \<Rightarrow> html \<Rightarrow> pyerr + item option" where
  "abnormal_parse_row e cfg labels result =
     (let cells = find_all ''td'' result
      in if length cells < length labels then Inr None
         else
     and_then (list_index labels ''Release'') (\<lambda>ti.
       let title = get_text_strip (cells ! ti)
       in
     and_then (list_index labels ''DL'') (\<lambda>di.
     and_then (case find_first (\<lambda>d. tag_name d = Some ''a'' \<and> has_class ''tooltip'' d)
                      (cells ! di) of
                 None \<Rightarrow> Inl TypeError
               | Some a \<Rightarrow> (case tag_attr a ''href'' of
                              None \<Rightarrow> Inl KeyError
                            | Some h \<Rightarrow> Inr h)) (\<lambda>href.
       let download_url = urljoin e abnormal_url href
       in if \<not> (truthy (PStr title) \<and> truthy (PStr download_url)) then Inr None
          else
     and_then (list_index labels ''S'') (\<lambda>si.
       let seeders = try_int e (PStr (get_text_strip (cells ! si)))
       in
     and_then (list_index labels ''L'') (\<lambda>li.
       let leechers = try_int e (PStr (get_text_strip (cells ! li)))
       in if seeders < minseed cfg \<or> leechers < minleech cfg then Inr None
          else
     and_then (if ''Size'' \<in> set labels then list_index labels ''Size''
               else list_index labels ''Taille'') (\<lambda>size_index.
       let torrent_size = get_text (cells ! size_index);
           size = py_or (convert_size e (PStr torrent_size) PNone abnormal_units) (PInt (- 1))
       in Inr (Some \<lparr>title = PStr title, link = PStr download_url, size_val = size,
                     seeders = PInt seeders, leechers = PInt leechers,
                     hash = PStr []\<rparr>))))))))"

fun abnormal_rows :: "env \<Rightarrow> config \<Rightarrow> string list \<Rightarrow> html list \<Rightarrow> item list \<Rightarrow> item list" where
  "abnormal_rows e cfg labels [] items = items"
| "abnormal_rows e cfg labels (result # rest) items =
     (case abnormal_parse_row e cfg labels result of
        Inl err \<Rightarrow> abnormal_rows e cfg labels rest items
      | Inr None \<Rightarrow> abnormal_rows e cfg labels rest items
      | Inr (Some r) \<Rightarrow> abnormal_rows e cfg labels rest (items @ [r]))"

definition abnormal_search_params :: "string \<Rightarrow> string \<Rightarrow> (string \<times> pyval) list" where
  "abnormal_search_params mode search_string =
     [(''cat[]'', PList (map PStr [''TV|SD|VOSTFR'', ''TV|HD|VOSTFR'', ''TV|SD|VF'', ''TV|HD|VF'',
                                   ''TV|PACK|FR'', ''TV|PACK|VOSTFR'', ''TV|EMISSIONS'', ''ANIME''])),
      (''way'', PStr ''DESC''),
      (''order'', PStr (if mode = ''RSS'' then ''Time'' else ''Seeders'')),
      (''search'', PStr (filter (\<lambda>c. c \<noteq> CHR ''('' \<and> c \<noteq> CHR '')'') search_string))]"

text \<open>The \<^verbatim>\<open>with BS4Parser(data, 'html5lib') as html\<close> block; \<open>[]\<close> at its \<^verbatim>\<open>continue\<close>.\<close>

definition abnormal_parse :: "env \<Rightarrow> config \<Rightarrow> string \<Rightarrow> item list" where
  "abnormal_parse e cfg data =
     (let html = BS4Parser e data;
          torrent_table = find_first (has_class ''torrent_table'') html;
          torrent_rows = (case torrent_table of
                            Some t \<Rightarrow> find_all ''tr'' t
                          | None \<Rightarrow> [])
      in if length torrent_rows < 2 then []
         else
           let labels = map get_text_strip (find_all ''td'' (hd torrent_rows))
           in abnormal_rows e cfg labels (tl torrent_rows) [])"

definition abnormal_page ::
  "env \<Rightarrow> config \<Rightarrow> string \<Rightarrow> string \<Rightarrow> session \<Rightarrow> outcome \<times> session" where
  "abnormal_page e cfg mode search_string s =
     (case get_url_text e \<lparr>url = urljoin e abnormal_url ''torrents.php'',
                            params = abnormal_search_params mode search_string,
                            post_data = PNone\<rparr> s of
        (data, s') \<Rightarrow>
          (case data of
             None \<Rightarrow> (Cont [], s')
           | Some txt \<Rightarrow>
               if txt = [] then (Cont [], s')
               else (Cont (abnormal_parse e cfg txt), s')))"

definition abnormal_search ::
  "env \<Rightarrow> config \<Rightarrow> (string \<times> string list) list \<Rightarrow> session \<Rightarrow> (pyerr + item list) \<times> session" where
  "abnormal_search e cfg search_strings s =
     (case abnormal_login e cfg s of
        (Inl err, s') \<Rightarrow> (Inl err, s')
      | (Inr ok, s') \<Rightarrow>
          if \<not> ok then (Inr [], s')
          else modes_loop e (abnormal_page e cfg) search_strings [] s')"

section \<open>IPTorrents\<close>

definition iptorrents_url :: string where
  "iptorrents_url = ''https://iptorrents.eu''"

definition iptorrents_categories :: string where
  "iptorrents_categories = ''73=&60=''"

text \<open>\<^verbatim>\<open>text.split(sep)\<close> for a separator that is not empty.\<close>

fun py_split_from :: "string \<Rightarrow> string \<Rightarrow> string \<Rightarrow> string list" where
  "py_split_from sep acc [] = [rev acc]"
| "py_split_from sep acc (c # cs) =
     (if sep \<noteq> [] \<and> starts_with sep (c # cs)
      then rev acc # py_split_from sep [] (drop (length sep - 1) cs)
      else py_split_from sep (c # acc) cs)"

definition py_split :: "string \<Rightarrow> string \<Rightarrow> string list" where
  "py_split sep txt = py_split_from sep [] txt"

text \<open>
  \<^verbatim>\<open>login\<close>. \<^verbatim>\<open>html.find('form', {'action': re.compile(r'.*login.*')})\<close> returns
  \<^verbatim>\<open>None\<close> when no form matches, and \<^verbatim>\<open>.get\<close> on it raises AttributeError.
\<close>

definition iptorrents_login :: "env \<Rightarrow> config \<Rightarrow> session \<Rightarrow> (pyerr + bool) \<times> session" where
  "iptorrents_login e cfg s =
     (let cookie_dict = map_of (cookies s)
      in if (case cookie_dict ''uid'' of None \<Rightarrow> False | Some v \<Rightarrow> v \<noteq> [])
            \<and> (case cookie_dict ''pass'' of None \<Rightarrow> False | Some v \<Rightarrow> v \<noteq> [])
         then (Inr True, s)
         else
           let (success, s1) =
                 (if cookies_cfg cfg \<noteq> []
                  then (case add_cookies_from_ui e (cookies_cfg cfg) (cookies s) of
                          (ok, jar) \<Rightarrow> (ok, s\<lparr>cookies := jar\<rparr>))
                  else (True, s))
           in if \<not> success then (Inr False, s1)
              else
                let login_params = PDict [(''username'', username cfg),
                                          (''password'', password cfg),
                                          (''login'', PStr ''submit'')]
                in if custom_url cfg \<noteq> [] \<and> \<not> validators_url e (custom_url cfg)
                   then (Inr False, s1)
                   else
                     let base = (if custom_url cfg \<noteq> [] then custom_url cfg else iptorrents_url)
                     in case get_url_text e \<lparr>url = base, params = [], post_data = PNone\<rparr> s1 of
                          (data, s2) \<Rightarrow>
                            (case data of
                               None \<Rightarrow> (Inr False, s2)
                             | Some txt \<Rightarrow>
                                 if txt = [] then (Inr False, s2)
                                 else
                                   (case find_first
                                           (\<lambda>d. tag_name d = Some ''form'' \<and>
                                                (case tag_attr d ''action'' of
                                                   None \<Rightarrow> False
                                                 | Some a \<Rightarrow> re_search e ''.*login.*'' a))
                                           (BS4Parser e txt) of
                                      None \<Rightarrow> (Inl AttributeError, s2)
                                    | Some form \<Rightarrow>
                                        (case tag_attr form ''action'' of
                                           None \<Rightarrow> (Inr False, s2)
                                         | Some action \<Rightarrow>
                                             if action = [] then (Inr False, s2)
                                             else
                                               (case get_url_text e
                                                       \<lparr>url = urljoin e base action, params = [],
                                                        post_data = login_params\<rparr> s2 of
                                                  (response, s3) \<Rightarrow>
                                                    (case response of
                                                       None \<Rightarrow> (Inr False, s3)
                                                     | Some r \<Rightarrow>
                                                         if r = [] then (Inr False, s3)
                                                         else if re_search e
                                                                   ''Invalid username and password combination'' r
                                                           then (Inr False, s3)
                                                         else if re_search e ''You tried too often'' r
                                                           then (Inr False, s3)
                                                         else if re_search e
                                                                   ''Captcha verification failed.'' r
                                                           then (Inr False, s3)
                                                         else (Inr True, s3)))))))"

text \<open>The inner \<^verbatim>\<open>try\<close> of \<^verbatim>\<open>for result in torrents[1:]\<close>: the fields of one row.\<close>

definition iptorrents_extract ::
  "env \<Rightarrow> string \<Rightarrow> html \<Rightarrow> pyerr + (string \<times> string \<times> int \<times> int \<times> pyval)" where
  "iptorrents_extract e search_url result =
     and_then (list_get (find_all ''td'' result) 1) (\<lambda>td1.
     and_then (case find_first (\<lambda>d. tag_name d = Some ''a'') td1 of
                 None \<Rightarrow> Inl AttributeError
               | Some a \<Rightarrow> Inr (get_text a)) (\<lambda>title.
     and_then (list_get (find_all ''td'' result) 3) (\<lambda>td3.
     and_then (case find_first (\<lambda>d. tag_name d = Some ''a'') td3 of
                 None \<Rightarrow> Inl TypeError
               | Some a \<Rightarrow> (case tag_attr a ''href'' of
                              None \<Rightarrow> Inl KeyError
                            | Some h \<Rightarrow> Inr h)) (\<lambda>href.
       let download_url = urljoin e search_url href
       in
     and_then (case find_first (\<lambda>d. tag_name d = Some ''td'' \<and> has_class ''ac t_seeders'' d)
                      result of
                 None \<Rightarrow> Inl AttributeError
               | Some td \<Rightarrow> py_int e (get_text td)) (\<lambda>seeders.
     and_then (case find_first (\<lambda>d. tag_name d = Some ''td'' \<and> has_class ''ac t_leechers'' d)
                      result of
                 None \<Rightarrow> Inl AttributeError
               | Some td \<Rightarrow> py_int e (get_text td)) (\<lambda>leechers.
     and_then (list_get (find_all ''td'' result) 5) (\<lambda>td5.
       let torrent_size = get_text td5;
           size = py_or (convert_size e (PStr torrent_size) PNone default_units) (PInt (- 1))
       in Inr (title, download_url, seeders, leechers, size))))))))"

text \<open>The rest of the loop body, after the inner \<^verbatim>\<open>try\<close>.\<close>

definition iptorrents_parse_row ::
  "env \<Rightarrow> config \<Rightarrow> string \<Rightarrow> html \<Rightarrow> pyerr + item option" where
  "iptorrents_parse_row e cfg search_url result =
     and_then (iptorrents_extract e search_url result)
       (\<lambda>(title, download_url, seeders, leechers, size).
          if \<not> (truthy (PStr title) \<and> truthy (PStr download_url)) then Inr None
          else if seeders < minseed cfg \<or> leechers < minleech cfg then Inr None
          else Inr (Some \<lparr>title = PStr title, link = PStr download_url, size_val = size,
                          seeders = PInt seeders, leechers = PInt leechers,
                          hash = PStr []\<rparr>))"

text \<open>
  The inner handler is \<^verbatim>\<open>except (AttributeError, TypeError, KeyError): continue\<close>. Any
  other exception reaches the outer \<^verbatim>\<open>except Exception\<close>, which logs it: the rows
  after it are not visited, the items appended before it stay.
\<close>

fun iptorrents_rows :: "env \<Rightarrow> config \<Rightarrow> string \<Rightarrow> html list \<Rightarrow> item list \<Rightarrow> item list" where
  "iptorrents_rows e cfg search_url [] items = items"
| "iptorrents_rows e cfg search_url (result # rest) items =
     (case iptorrents_parse_row e cfg search_url result of
        Inl err \<Rightarrow>
          if err \<in> {AttributeError, TypeError, KeyError}
          then iptorrents_rows e cfg search_url rest items
          else items
      | Inr None \<Rightarrow> iptorrents_rows e cfg search_url rest items
      | Inr (Some r) \<Rightarrow> iptorrents_rows e cfg search_url rest (items @ [r]))"

text \<open>
  The outer \<^verbatim>\<open>try\<close>; \<open>[]\<close> at each \<^verbatim>\<open>continue\<close>. A parsed document is always
  true, so \<^verbatim>\<open>if not html\<close> never holds and has no branch here.
\<close>

definition iptorrents_parse :: "env \<Rightarrow> config \<Rightarrow> string \<Rightarrow> string \<Rightarrow> item list" where
  "iptorrents_parse e cfg search_url data =
     (let html = BS4Parser e (re_sub e ''(?im)<button.+?</button>'' [] data)
      in if find_first (\<lambda>d. d = NavigableString ''No Torrents Found!'') html \<noteq> None then []
         else
           let torrent_table =
                 find_first (\<lambda>d. tag_name d = Some ''table'' \<and>
                                 tag_attr d ''id'' = Some ''torrents'') html;
               torrents = (case torrent_table of
                             Some t \<Rightarrow> find_all ''tr'' t
                           | None \<Rightarrow> [])
           in if torrents = [] \<or> length torrents < 2 then []
              else iptorrents_rows e cfg search_url (tl torrents) [])"

text \<open>From \<^verbatim>\<open>data = self.get_url(search_url, returns='text')\<close> on.\<close>

definition iptorrents_fetch :: "env \<Rightarrow> config \<Rightarrow> string \<Rightarrow> session \<Rightarrow> outcome \<times> session" where
  "iptorrents_fetch e cfg search_url s =
     (case get_url_text e \<lparr>url = search_url, params = [], post_data = PNone\<rparr> s of
        (data, s') \<Rightarrow>
          (case data of
             None \<Rightarrow> (Cont [], s')
           | Some txt \<Rightarrow>
               if txt = [] then (Cont [], s')
               else (Cont (iptorrents_parse e cfg search_url txt), s')))"

definition iptorrents_page ::
  "env \<Rightarrow> config \<Rightarrow> string \<Rightarrow> string \<Rightarrow> session \<Rightarrow> outcome \<times> session" where
  "iptorrents_page e cfg mode search_string s =
     (let free = (if freeleech cfg then ''&free=on'' else []);
          search_url = iptorrents_url @ ''/t?'' @ iptorrents_categories @ free
                       @ ''&q='' @ search_string @ ''&qf=#torrents''
                       @ (if mode \<noteq> ''RSS'' then '';o=seeders'' else [])
      in if custom_url cfg \<noteq> [] then
           if \<not> validators_url e (custom_url cfg) then (Return, s)
           else (case list_get (py_split iptorrents_url search_url) 1 of
                   Inl err \<Rightarrow> (Raise err, s)
                 | Inr path \<Rightarrow> iptorrents_fetch e cfg (urljoin e (custom_url cfg) path) s)
         else iptorrents_fetch e cfg search_url s)"

definition iptorrents_search ::
  "env \<Rightarrow> config \<Rightarrow> (string \<times> string list) list \<Rightarrow> session \<Rightarrow> (pyerr + item list) \<times> session" where
  "iptorrents_search e cfg search_strings s =
     (case iptorrents_login e cfg s of
        (Inl err, s') \<Rightarrow> (Inl err, s')
      | (Inr ok, s') \<Rightarrow>
          if \<not> ok then (Inr [], s')
          else modes_loop e (iptorrents_page e cfg) search_strings [] s')"

section \<open>The four providers\<close>

datatype provider = ABNormal | IPTorrents | Ncore | Norbits

definition search ::
  "provider \<Rightarrow> env \<Rightarrow> config \<Rightarrow> (string \<times> string list) list \<Rightarrow> session
     \<Rightarrow> (pyerr + item list) \<times> session" where
  "search p e cfg search_strings s =
     (case p of
        ABNormal \<Rightarrow> abnormal_search e cfg search_strings s
      | IPTorrents \<Rightarrow> iptorrents_search e cfg search_strings s
      | Ncore \<Rightarrow> ncore_search e cfg search_strings s
      | Norbits \<Rightarrow> norbits_search e cfg search_strings s)"

text \<open>The code a provider runs for one search string of one mode.\<close>

definition page_of ::
  "provider \<Rightarrow> env \<Rightarrow> config \<Rightarrow> string \<Rightarrow> string \<Rightarrow> session \<Rightarrow> outcome \<times> session" where
  "page_of p e cfg =
     (case p of
        ABNormal \<Rightarrow> abnormal_page e cfg
      | IPTorrents \<Rightarrow> iptorrents_page e cfg
      | Ncore \<Rightarrow> ncore_page e cfg
      | Norbits \<Rightarrow> norbits_page e cfg)"

section \<open>What holds of every record\<close>





text \<open>
  The invariants that the loops preserve. Of every provider: a record has a title and a
  link that are true, and the two tests \<^verbatim>\<open>seeders < minseed\<close> and
  \<^verbatim>\<open>leechers < minleech\<close> are false of it. Of the providers that coerce the two counts:
  they are integers that meet the minimums. Of the providers with \<^verbatim>\<open>or -1\<close>: the
  size is true (never 0, never \<^verbatim>\<open>None\<close>).
\<close>

definition row_ok :: "config \<Rightarrow> item \<Rightarrow> bool" where
  "row_ok cfg r =
     (truthy (title r) \<and> truthy (link r)
      \<and> py_lt (seeders r) (minseed cfg) = Inr False
      \<and> py_lt (leechers r) (minleech cfg) = Inr False)"

definition row_int :: "config \<Rightarrow> item \<Rightarrow> bool" where
  "row_int cfg r =
     (truthy (title r) \<and> truthy (link r)
      \<and> (\<exists>a. seeders r = PInt a \<and> minseed cfg \<le> a)
      \<and> (\<exists>b. leechers r = PInt b \<and> minleech cfg \<le> b))"

definition size_ok :: "item \<Rightarrow> bool" where
  "size_ok r = truthy (size_val r)"

section \<open>Sample collaborators, pages and sessions\<close>

text \<open>
  Concrete collaborators, configurations and provider answers on which the model is
  run: a test double for each parameter of \<open>env\<close>, and small pages that contain good
  rows, rows to be dropped and rows that fail to parse.
\<close>

definition sample_cfg :: config where
  "sample_cfg = \<lparr>username = PStr ''user'', password = PStr ''secret'', passkey = PStr ''key'',
                  minseed = 5, minleech = 1, custom_url = [], cookies_cfg = [],
                  freeleech = False\<rparr>"

definition no_passkey_cfg :: config where
  "no_passkey_cfg = sample_cfg\<lparr>passkey := PStr []\<rparr>"

definition sample_convert_size :: "pyval \<Rightarrow> pyval \<Rightarrow> string list \<Rightarrow> pyval" where
  "sample_convert_size sz dflt units =
     (case sz of
        PInt n \<Rightarrow> PInt (max n 0)
      | PStr t \<Rightarrow> (case map_of [(''1.5 GO'', PInt 1610612736), (''1.5 GB'', PInt 1610612736),
                                  (''0 O'', PInt 0), (''0 B'', PInt 0)] t of
                     Some v \<Rightarrow> v
                   | None \<Rightarrow> dflt)
      | v \<Rightarrow> dflt)"

text \<open>
  The collaborators around a given network, a given parsed document (whatever the text)
  and a given JSON decoder.
\<close>

definition sample_env ::
  "(session \<Rightarrow> request \<Rightarrow> reply) \<Rightarrow> html \<Rightarrow> (string \<Rightarrow> pyval option) \<Rightarrow> env" where
  "sample_env net doc decode =
     \<lparr>transport = net,
      BS4Parser = (\<lambda>data. doc),
      urljoin = (\<lambda>base u. if starts_with ''/'' u then base @ u else base @ ''/'' @ u),
      urlencode = (\<lambda>kvs. concat (map (\<lambda>kv. fst kv @ ''=&'') kvs)),
      json_loads = decode,
      json_dumps = (\<lambda>v. ''{}''),
      re_search = contains,
      re_sub = (\<lambda>pat repl t. t),
      validators_url = (\<lambda>u. True),
      int_of_text = map_of [(''3'', 3), (''7'', 7), (''9'', 9), (''12'', 12)],
      convert_size = sample_convert_size,
      add_cookies_from_ui = (\<lambda>c jar. (True, jar))\<rparr>"

definition no_doc :: html where
  "no_doc = Tag ''[document]'' [] [] []"

definition fresh :: session where
  "fresh = \<lparr>cookies = [], sent = []\<rparr>"

definition signed_in :: session where
  "signed_in = \<lparr>cookies = [(''uid'', ''42''), (''pass'', ''s3cr3t'')], sent = []\<rparr>"

definition sample_query :: "(string \<times> string list) list" where
  "sample_query = [(''Episode'', [''Show S01E01''])]"

definition two_queries :: "(string \<times> string list) list" where
  "two_queries = [(''Episode'', [''Show S01E01'', ''Show 1x01''])]"

text \<open>An expected record.\<close>

definition hit :: "string \<Rightarrow> string \<Rightarrow> int \<Rightarrow> int \<Rightarrow> int \<Rightarrow> string \<Rightarrow> item" where
  "hit name href sz sd lc h =
     \<lparr>title = PStr name, link = PStr href, size_val = PInt sz, seeders = PInt sd,
      leechers = PInt lc, hash = PStr h\<rparr>"

text \<open>A network that never answers.\<close>

definition silent_net :: "session \<Rightarrow> request \<Rightarrow> reply" where
  "silent_net s req = \<lparr>body_text = None, body_json = PNone, new_cookies = cookies s\<rparr>"

definition silent_env :: env where
  "silent_env = sample_env silent_net no_doc (\<lambda>t. None)"

text \<open>A network that answers every request with a page of markup.\<close>

definition page_net :: "session \<Rightarrow> request \<Rightarrow> reply" where
  "page_net s req = \<lparr>body_text = Some ''<html>'', body_json = PNone, new_cookies = cookies s\<rparr>"

subsection \<open>Norbits\<close>

definition norbits_torrent :: "string \<Rightarrow> int \<Rightarrow> int \<Rightarrow> int \<Rightarrow> pyval" where
  "norbits_torrent name sd lc sz =
     PDict [(''name'', PStr name), (''id'', PInt 1), (''seeders'', PInt sd),
            (''leechers'', PInt lc), (''size'', PInt sz), (''info_hash'', PStr ''ab12'')]"

text \<open>Five torrents: the second has no name, the fourth has too few seeders.\<close>

definition norbits_body :: pyval where
  "norbits_body =
     PDict [(''status'', PInt 0),
            (''data'', PDict [(''torrents'',
               PList [norbits_torrent ''Show.S01E01.A'' 7 2 1024,
                      norbits_torrent [] 50 2 1024,
                      norbits_torrent ''Show.S01E01.B'' 9 2 0,
                      norbits_torrent ''Show.S01E01.C'' 3 2 1024,
                      norbits_torrent ''Show.S01E01.D'' 7 1 2048])])]"

text \<open>A network whose first reply is that body and which then stops answering.\<close>

definition norbits_once :: "session \<Rightarrow> request \<Rightarrow> reply" where
  "norbits_once s req =
     (if sent s = [] then \<lparr>body_text = None, body_json = norbits_body, new_cookies = cookies s\<rparr>
      else \<lparr>body_text = None, body_json = PNone, new_cookies = cookies s\<rparr>)"

definition norbits_env :: env where
  "norbits_env = sample_env norbits_once no_doc (\<lambda>t. None)"

definition sample_norbits_link :: string where
  "sample_norbits_link = ''https://norbits.net/download.php?id=&passkey=&''"

definition norbits_results :: "item list" where
  "norbits_results =
     [hit ''Show.S01E01.B'' sample_norbits_link 0 9 2 ''ab12'',
      hit ''Show.S01E01.A'' sample_norbits_link 1024 7 2 ''ab12'',
      hit ''Show.S01E01.D'' sample_norbits_link 2048 7 1 ''ab12'']"

text \<open>Norbits answering with its invalid-credentials message, and with no torrent list.\<close>

definition norbits_rejected :: pyval where
  "norbits_rejected = PDict [(''status'', PInt 3), (''message'', PStr ''Invalid passkey'')]"

definition norbits_rejecting_env :: env where
  "norbits_rejecting_env =
     sample_env (\<lambda>s req. \<lparr>body_text = None, body_json = norbits_rejected,
                           new_cookies = cookies s\<rparr>) no_doc (\<lambda>t. None)"

definition norbits_null_env :: env where
  "norbits_null_env =
     sample_env (\<lambda>s req. \<lparr>body_text = None,
                           body_json = PDict [(''status'', PInt 0),
                                              (''data'', PDict [(''torrents'', PNone)])],
                           new_cookies = cookies s\<rparr>) no_doc (\<lambda>t. None)"

text \<open>A rejected answer that still carries a torrent list, and the same list alone.\<close>

definition norbits_flagged :: "(string \<times> pyval) list" where
  "norbits_flagged =
     [(''status'', PInt 3), (''message'', PStr ''Invalid passkey''),
      (''data'', PDict [(''torrents'', PList [norbits_torrent ''Show.S01E01.A'' 7 2 1024])])]"

definition norbits_plain :: "(string \<times> pyval) list" where
  "norbits_plain =
     [(''data'', PDict [(''torrents'', PList [norbits_torrent ''Show.S01E01.A'' 7 2 1024])])]"

subsection \<open>Ncore\<close>

text \<open>Three results: the second has its seeders as text, the third has size 0.\<close>

definition ncore_item :: "string \<Rightarrow> string \<Rightarrow> pyval \<Rightarrow> int \<Rightarrow> int \<Rightarrow> pyval" where
  "ncore_item name href sd lc sz =
     PDict [(''release_name'', PStr name), (''download_url'', PStr href), (''seeders'', sd),
            (''leechers'', PInt lc), (''size'', PInt sz)]"

definition ncore_body :: pyval where
  "ncore_body =
     PDict [(''total_results'', PInt 3),
            (''results'', PList
               [ncore_item ''Show.S01E01.A'' ''http://x/d/1'' (PInt 10) 2 104857600,
                ncore_item ''Show.S01E01.B'' ''http://x/d/2'' (PStr ''10'') 2 1,
                ncore_item ''Show.S01E01.C'' ''http://x/d/3'' (PInt 12) 2 0])]"

text \<open>
  A network that accepts the login, answers the first search with text that decodes to
  that body, and then stops answering.
\<close>

definition ncore_net :: "session \<Rightarrow> request \<Rightarrow> reply" where
  "ncore_net s req =
     (if url req = ncore_login_url
      then \<lparr>body_text = Some ''welcome'', body_json = PNone,
            new_cookies = [(''PHPSESSID'', ''1'')]\<rparr>
      else if length (sent s) \<le> 1
      then \<lparr>body_text = Some ''results'', body_json = PNone, new_cookies = cookies s\<rparr>
      else \<lparr>body_text = None, body_json = PNone, new_cookies = cookies s\<rparr>)"

definition ncore_env :: env where
  "ncore_env = sample_env ncore_net no_doc (map_of [(''results'', ncore_body)])"

definition ncore_results :: "item list" where
  "ncore_results =
     [hit ''Show.S01E01.C'' ''http://x/d/3'' (- 1) 12 2 [],
      hit ''Show.S01E01.A'' ''http://x/d/1'' 104857600 10 2 []]"

text \<open>
  Two answers whose seeders are floats: one result with \<^verbatim>\<open>NaN\<close> seeders, and two
  results with 5.25 and then 5.75 seeders.
\<close>

definition raw_hit :: "string \<Rightarrow> string \<Rightarrow> int \<Rightarrow> pyval \<Rightarrow> int \<Rightarrow> item" where
  "raw_hit name href sz sd lc =
     \<lparr>title = PStr name, link = PStr href, size_val = PInt sz, seeders = sd,
      leechers = PInt lc, hash = PStr []\<rparr>"

definition ncore_nan_body :: pyval where
  "ncore_nan_body =
     PDict [(''total_results'', PInt 1),
            (''results'', PList
               [ncore_item ''Show.S01E01.A'' ''http://x/d/1'' (PFloat NaN) 2 104857600])]"

definition ncore_nan_env :: env where
  "ncore_nan_env = sample_env ncore_net no_doc (map_of [(''results'', ncore_nan_body)])"

definition ncore_float_body :: pyval where
  "ncore_float_body =
     PDict [(''total_results'', PInt 2),
            (''results'', PList
               [ncore_item ''Show.S01E01.A'' ''http://x/d/1'' (PFloat (Finite 21 2)) 2 104857600,
                ncore_item ''Show.S01E01.B'' ''http://x/d/2'' (PFloat (Finite 23 2)) 2 104857600])]"

definition ncore_float_env :: env where
  "ncore_float_env = sample_env ncore_net no_doc (map_of [(''results'', ncore_float_body)])"

subsection \<open>ABNormal\<close>

definition cell :: "string \<Rightarrow> html" where
  "cell t = Tag ''td'' [] [] [NavigableString t]"

definition abnormal_tr :: "string \<Rightarrow> string \<Rightarrow> string \<Rightarrow> string \<Rightarrow> string \<Rightarrow> html" where
  "abnormal_tr name href sz sd lc =
     Tag ''tr'' [] []
       [Tag ''td'' [] [] [Tag ''a'' [] [] [NavigableString name]],
        Tag ''td'' [] [] [Tag ''a'' [''tooltip''] [(''href'', href)] []],
        cell sz, cell sd, cell lc]"

definition abnormal_labels :: "string list" where
  "abnormal_labels = [''Release'', ''DL'', ''Size'', ''S'', ''L'']"

text \<open>
  A header and five rows: the second is too short, the fourth has too few seeders, and
  the size of the third is zero.
\<close>

definition abnormal_doc :: html where
  "abnormal_doc =
     Tag ''[document]'' [] []
       [Tag ''table'' [''torrent_table''] []
          [Tag ''tr'' [''colhead''] [] (map cell abnormal_labels),
           abnormal_tr '' Show.S01E01.A '' ''/dl/1'' ''1.5 GO'' ''7'' ''3'',
           Tag ''tr'' [] [] [cell ''broken''],
           abnormal_tr ''Show.S01E01.B'' ''/dl/2'' ''0 O'' ''12'' ''3'',
           abnormal_tr ''Show.S01E01.C'' ''/dl/3'' ''n/a'' ''3'' ''3'',
           abnormal_tr ''Show.S01E01.D'' ''/dl/4'' ''n/a'' ''7'' ''9'']]"

definition abnormal_env :: env where
  "abnormal_env = sample_env page_net abnormal_doc (\<lambda>t. None)"

definition abnormal_results :: "item list" where
  "abnormal_results =
     [hit ''Show.S01E01.B'' ''https://abnormal.ws/dl/2'' (- 1) 12 3 [],
      hit ''Show.S01E01.A'' ''https://abnormal.ws/dl/1'' 1610612736 7 3 [],
      hit ''Show.S01E01.D'' ''https://abnormal.ws/dl/4'' (- 1) 7 9 []]"

subsection \<open>IPTorrents\<close>

definition iptorrents_tr :: "string \<Rightarrow> string \<Rightarrow> string \<Rightarrow> string \<Rightarrow> string \<Rightarrow> html" where
  "iptorrents_tr name href sz sd lc =
     Tag ''tr'' [] []
       [cell ''TV'',
        Tag ''td'' [] [] [Tag ''a'' [] [] [NavigableString name]],
        cell [],
        Tag ''td'' [] [] [Tag ''a'' [] [(''href'', href)] []],
        cell ''0'', cell sz, cell ''1'',
        Tag ''td'' [''ac'', ''t_seeders''] [] [NavigableString sd],
        Tag ''td'' [''ac'', ''t_leechers''] [] [NavigableString lc]]"

text \<open>
  A header and five rows: the second has no link, the third has size zero, and the
  seeders of the fourth are not a number.
\<close>

definition iptorrents_doc :: html where
  "iptorrents_doc =
     Tag ''[document]'' [] []
       [Tag ''table'' [] [(''id'', ''torrents'')]
          [Tag ''tr'' [] [] [Tag ''th'' [] [] [NavigableString ''Name'']],
           iptorrents_tr ''Show.S01E01.A'' ''/download.php/1/a.torrent'' ''1.5 GB'' ''7'' ''3'',
           Tag ''tr'' [] [] [cell ''x'', cell ''y''],
           iptorrents_tr ''Show.S01E01.B'' ''/download.php/2/b.torrent'' ''0 B'' ''12'' ''3'',
           iptorrents_tr ''Show.S01E01.C'' ''/download.php/3/c.torrent'' ''1.5 GB'' ''-'' ''3'',
           iptorrents_tr ''Show.S01E01.D'' ''/download.php/4/d.torrent'' ''1.5 GB'' ''9'' ''3'']]"

definition iptorrents_env :: env where
  "iptorrents_env = sample_env page_net iptorrents_doc (\<lambda>t. None)"

definition sample_search_url :: string where
  "sample_search_url =
     ''https://iptorrents.eu/t?73=&60=&q=Show S01E01&qf=#torrents;o=seeders''"

definition iptorrents_results :: "item list" where
  "iptorrents_results =
     [hit ''Show.S01E01.B'' (sample_search_url @ ''/download.php/2/b.torrent'') (- 1) 12 3 [],
      hit ''Show.S01E01.A'' (sample_search_url @ ''/download.php/1/a.torrent'')
        1610612736 7 3 []]"

section \<open>Invariants of the loops and of the rows\<close>

subsection \<open>Values that may raise\<close>

lemma and_then_Inr:
  "and_then x f = Inr y \<longleftrightarrow> (\<exists>v. x = Inr v \<and> f v = Inr y)"
  by (cases x) auto

lemma py_pop_Inr: "py_pop it k = Inr v \<longleftrightarrow> (\<exists>kvs. it = PDict kvs \<and> map_of kvs k = Some v)"
  by (cases it) (auto split: option.splits)

lemma row_int_row_ok: "row_int cfg r \<Longrightarrow> row_ok cfg r"
  by (auto simp: row_int_def row_ok_def)


lemma truthy_py_or_minus_one: "truthy (py_or v (PInt (- 1)))"
  by (simp add: py_or_def)

subsection \<open>The loops\<close>

lemma strings_loop_inv:
  assumes page: "\<And>q s rows s'. page q s = (Cont rows, s') \<Longrightarrow> \<forall>r\<in>set rows. P r"
    and run: "strings_loop page qs items s = (Cont items', s')"
    and start: "\<forall>r\<in>set items. P r"
  shows "\<forall>r\<in>set items'. P r"
  using run start
proof (induction qs arbitrary: items s)
  case Nil
  then show ?case by simp
next
  case (Cons q qs)
  obtain out s1 where step: "page q s = (out, s1)" by (cases "page q s")
  show ?case
  proof (cases out)
    case (Cont rows)
    with step Cons.prems(1) have "strings_loop page qs (items @ rows) s1 = (Cont items', s')"
      by simp
    moreover from page step Cont Cons.prems(2) have "\<forall>r\<in>set (items @ rows). P r"
      by auto
    ultimately show ?thesis by (rule Cons.IH)
  next
    case Return
    with step Cons.prems(1) show ?thesis by simp
  next
    case (Raise err)
    with step Cons.prems(1) show ?thesis by simp
  qed
qed

lemma run_mode_Cont:
  "run_mode e page mode qs s = (Cont block, s') \<longleftrightarrow>
     (\<exists>items. strings_loop (page mode) qs [] s = (Cont items, s') \<and> block = sort_items e items)"
  by (auto simp: run_mode_def split: prod.splits outcome.splits)

lemma set_sort_items: "set (sort_items e items) = set items"
  by (simp add: sort_items_def)

lemma run_mode_inv:
  assumes page: "\<And>q s rows s'. page mode q s = (Cont rows, s') \<Longrightarrow> \<forall>r\<in>set rows. P r"
    and run: "run_mode e page mode qs s = (Cont block, s')"
  shows "\<forall>r\<in>set block. P r"
proof -
  from run obtain items where loop: "strings_loop (page mode) qs [] s = (Cont items, s')"
    and block: "block = sort_items e items"
    by (auto simp: run_mode_Cont)
  have "\<forall>r\<in>set items. P r"
    by (rule strings_loop_inv [where page = "page mode", OF page loop]) simp_all
  with block show ?thesis by (simp add: set_sort_items)
qed

lemma modes_loop_inv:
  assumes page: "\<And>mode q s rows s'. page mode q s = (Cont rows, s') \<Longrightarrow> \<forall>r\<in>set rows. P r"
    and run: "modes_loop e page ss results s = (Inr rs, s')"
    and start: "\<forall>r\<in>set results. P r"
  shows "\<forall>r\<in>set rs. P r"
  using run start
proof (induction ss arbitrary: results s)
  case Nil
  then show ?case by simp
next
  case (Cons m ss)
  obtain mode qs where m: "m = (mode, qs)" by (cases m)
  obtain out s1 where step: "run_mode e page mode qs s = (out, s1)"
    by (cases "run_mode e page mode qs s")
  show ?case
  proof (cases out)
    case (Cont block)
    with step m Cons.prems(1) have "modes_loop e page ss (results @ block) s1 = (Inr rs, s')"
      by simp
    moreover have "\<forall>r\<in>set block. P r"
    proof (rule run_mode_inv)
      show "\<And>q s rows s'. page mode q s = (Cont rows, s') \<Longrightarrow> \<forall>r\<in>set rows. P r"
        by (rule page)
      show "run_mode e page mode qs s = (Cont block, s1)"
        using step Cont by simp
    qed
    with Cons.prems(2) have "\<forall>r\<in>set (results @ block). P r" by auto
    ultimately show ?thesis by (rule Cons.IH)
  next
    case Return
    with step m Cons.prems show ?thesis by auto
  next
    case (Raise err)
    with step m Cons.prems(1) show ?thesis by simp
  qed
qed

subsection \<open>The rows of Norbits\<close>

lemma norbits_parse_item_ok:
  assumes "norbits_parse_item e cfg it = Inr (Some r)"
  shows "row_int cfg r"
proof (cases it)
  case (PDict kvs)
  with assms show ?thesis
    unfolding norbits_parse_item_def Let_def row_int_def
    by (simp split: if_splits) auto
qed (use assms in \<open>simp_all add: norbits_parse_item_def\<close>)

lemma norbits_rows_ok:
  "norbits_rows e cfg its items = Inr rs \<Longrightarrow> \<forall>r\<in>set items. row_int cfg r
     \<Longrightarrow> \<forall>r\<in>set rs. row_int cfg r"
proof (induction its arbitrary: items)
  case Nil
  then show ?case by simp
next
  case (Cons it its)
  show ?case
  proof (cases "norbits_parse_item e cfg it")
    case (Inl err)
    with Cons.prems show ?thesis by simp
  next
    case (Inr res)
    show ?thesis
    proof (cases res)
      case None
      with Inr Cons.prems have "norbits_rows e cfg its items = Inr rs" by simp
      then show ?thesis using Cons.prems(2) by (rule Cons.IH)
    next
      case (Some r)
      with Inr Cons.prems have "norbits_rows e cfg its (items @ [r]) = Inr rs" by simp
      moreover from Inr Some have "row_int cfg r" by (simp add: norbits_parse_item_ok)
      with Cons.prems(2) have "\<forall>x\<in>set (items @ [r]). row_int cfg x" by simp
      ultimately show ?thesis by (rule Cons.IH)
    qed
  qed
qed

lemma norbits_parse_ok:
  assumes "norbits_parse e cfg parsed_json = Inr rows"
  shows "\<forall>r\<in>set rows. row_int cfg r"
proof -
  from assms consider "rows = []" | its where "norbits_rows e cfg its [] = Inr rows"
    unfolding norbits_parse_def by (auto simp: and_then_Inr split: if_splits)
  then show ?thesis
  proof cases
    case 1
    then show ?thesis by simp
  next
    case 2
    then show ?thesis by (rule norbits_rows_ok) simp
  qed
qed

lemma norbits_page_ok:
  assumes "norbits_page e cfg mode q s = (Cont rows, s')"
  shows "\<forall>r\<in>set rows. row_int cfg r"
proof -
  from assms obtain parsed_json where "norbits_parse e cfg parsed_json = Inr rows"
    unfolding norbits_page_def Let_def
    by (auto split: sum.splits prod.splits if_splits)
  then show ?thesis by (rule norbits_parse_ok)
qed

subsection \<open>The rows of Ncore\<close>

lemma ncore_parse_item_ok:
  assumes "ncore_parse_item e cfg it = Inr (Some r)"
  shows "row_ok cfg r \<and> size_ok r"
  using assms
  unfolding ncore_parse_item_def Let_def row_ok_def size_ok_def
  by (clarsimp simp: and_then_Inr py_pop_Inr truthy_py_or_minus_one split: if_splits)

lemma ncore_rows_ok:
  "\<forall>r\<in>set items. row_ok cfg r \<and> size_ok r
     \<Longrightarrow> \<forall>r\<in>set (ncore_rows e cfg its items). row_ok cfg r \<and> size_ok r"
proof (induction its arbitrary: items)
  case Nil
  then show ?case by simp
next
  case (Cons it its)
  have keep: "\<forall>r\<in>set (ncore_rows e cfg its items). row_ok cfg r \<and> size_ok r"
    using Cons.prems by (rule Cons.IH)
  show ?case
  proof (cases "ncore_parse_item e cfg it")
    case (Inl err)
    then have "ncore_rows e cfg (it # its) items = ncore_rows e cfg its items"
      by simp
    with keep show ?thesis by (simp only:)
  next
    case (Inr res)
    show ?thesis
    proof (cases res)
      case None
      with Inr have "ncore_rows e cfg (it # its) items = ncore_rows e cfg its items"
        by simp
      with keep show ?thesis by (simp only:)
    next
      case (Some r)
      with Inr have ok: "row_ok cfg r \<and> size_ok r" by (simp add: ncore_parse_item_ok)
      from Inr Some have eq: "ncore_rows e cfg (it # its) items = ncore_rows e cfg its (items @ [r])"
        by simp
      from Cons.prems ok have "\<forall>x\<in>set (items @ [r]). row_ok cfg x \<and> size_ok x" by simp
      then have "\<forall>x\<in>set (ncore_rows e cfg its (items @ [r])). row_ok cfg x \<and> size_ok x"
        by (rule Cons.IH)
      with eq show ?thesis by (simp only:)
    qed
  qed
qed

lemma ncore_rows_ok0: "\<forall>r\<in>set (ncore_rows e cfg its []). row_ok cfg r \<and> size_ok r"
  by (rule ncore_rows_ok) simp

lemma ncore_parse_ok:
  assumes "ncore_parse e cfg parsed_json = Inr rows"
  shows "\<forall>r\<in>set rows. row_ok cfg r \<and> size_ok r"
proof -
  from assms consider "rows = []" | its where "rows = ncore_rows e cfg its []"
    unfolding ncore_parse_def by (auto simp: and_then_Inr split: if_splits)
  then show ?thesis
  proof cases
    case 1
    then show ?thesis by simp
  next
    case 2
    then show ?thesis by (simp add: ncore_rows_ok0)
  qed
qed

lemma ncore_page_ok:
  assumes "ncore_page e cfg mode q s = (Cont rows, s')"
  shows "\<forall>r\<in>set rows. row_ok cfg r \<and> size_ok r"
proof -
  from assms consider "rows = []" | pj where "ncore_parse e cfg pj = Inr rows"
    unfolding ncore_page_def
    by (auto split: sum.splits prod.splits option.splits)
  then show ?thesis
  proof cases
    case 1
    then show ?thesis by simp
  next
    case 2
    then show ?thesis by (rule ncore_parse_ok)
  qed
qed

subsection \<open>The rows of ABNormal\<close>

lemma abnormal_parse_row_int:
  assumes "abnormal_parse_row e cfg labels result = Inr (Some r)"
  shows "row_int cfg r \<and> size_ok r"
  using assms
  unfolding abnormal_parse_row_def Let_def row_int_def size_ok_def
  by (clarsimp simp: and_then_Inr truthy_py_or_minus_one split: if_splits)

lemma abnormal_rows_ok:
  "\<forall>r\<in>set items. row_int cfg r \<and> size_ok r
     \<Longrightarrow> \<forall>r\<in>set (abnormal_rows e cfg labels rows items). row_int cfg r \<and> size_ok r"
proof (induction rows arbitrary: items)
  case Nil
  then show ?case by simp
next
  case (Cons row rows)
  have keep: "\<forall>r\<in>set (abnormal_rows e cfg labels rows items). row_int cfg r \<and> size_ok r"
    using Cons.prems by (rule Cons.IH)
  show ?case
  proof (cases "abnormal_parse_row e cfg labels row")
    case (Inl err)
    then have "abnormal_rows e cfg labels (row # rows) items = abnormal_rows e cfg labels rows items"
      by simp
    with keep show ?thesis by (simp only:)
  next
    case (Inr res)
    show ?thesis
    proof (cases res)
      case None
      with Inr have "abnormal_rows e cfg labels (row # rows) items = abnormal_rows e cfg labels rows items"
        by simp
      with keep show ?thesis by (simp only:)
    next
      case (Some r)
      with Inr have ok: "row_int cfg r \<and> size_ok r" by (simp add: abnormal_parse_row_int)
      from Inr Some have eq: "abnormal_rows e cfg labels (row # rows) items = abnormal_rows e cfg labels rows (items @ [r])"
        by simp
      from Cons.prems ok have "\<forall>x\<in>set (items @ [r]). row_int cfg x \<and> size_ok x" by simp
      then have "\<forall>x\<in>set (abnormal_rows e cfg labels rows (items @ [r])). row_int cfg x \<and> size_ok x"
        by (rule Cons.IH)
      with eq show ?thesis by (simp only:)
    qed
  qed
qed

lemma abnormal_rows_ok0:
  "\<forall>r\<in>set (abnormal_rows e cfg labels rows []). row_int cfg r \<and> size_ok r"
  by (rule abnormal_rows_ok) simp

lemma abnormal_parse_ok: "\<forall>r\<in>set (abnormal_parse e cfg body). row_int cfg r \<and> size_ok r"
  unfolding abnormal_parse_def Let_def
  by (simp add: abnormal_rows_ok0)

lemma abnormal_page_ok:
  assumes "abnormal_page e cfg mode q s = (Cont rows, s')"
  shows "\<forall>r\<in>set rows. row_int cfg r \<and> size_ok r"
proof -
  from assms consider "rows = []" | body where "rows = abnormal_parse e cfg body"
    unfolding abnormal_page_def
    by (auto split: prod.splits if_splits option.splits)
  then show ?thesis
  proof cases
    case 1
    then show ?thesis by simp
  next
    case 2
    then show ?thesis by (simp add: abnormal_parse_ok)
  qed
qed

subsection \<open>The rows of IPTorrents\<close>

lemma iptorrents_extract_size:
  assumes "iptorrents_extract e search_url result = Inr (ttl, dl, sd, lc, sz)"
  shows "truthy sz"
  using assms
  unfolding iptorrents_extract_def Let_def
  by (clarsimp simp: and_then_Inr truthy_py_or_minus_one)

lemma iptorrents_parse_row_int:
  assumes "iptorrents_parse_row e cfg search_url result = Inr (Some r)"
  shows "row_int cfg r \<and> size_ok r"
proof -
  from assms obtain ttl dl sd lc sz
    where ex: "iptorrents_extract e search_url result = Inr (ttl, dl, sd, lc, sz)"
      and r: "(if \<not> (truthy (PStr ttl) \<and> truthy (PStr dl)) then Inr None
               else if sd < minseed cfg \<or> lc < minleech cfg then Inr None
               else Inr (Some \<lparr>title = PStr ttl, link = PStr dl, size_val = sz,
                               seeders = PInt sd, leechers = PInt lc, hash = PStr []\<rparr>))
              = (Inr (Some r) :: pyerr + item option)"
    unfolding iptorrents_parse_row_def and_then_Inr by auto
  from ex have "truthy sz" by (rule iptorrents_extract_size)
  with r show ?thesis
    by (auto simp: row_int_def size_ok_def split: if_splits)
qed

lemma iptorrents_rows_ok:
  "\<forall>r\<in>set items. row_int cfg r \<and> size_ok r
     \<Longrightarrow> \<forall>r\<in>set (iptorrents_rows e cfg u rows items). row_int cfg r \<and> size_ok r"
proof (induction rows arbitrary: items)
  case Nil
  then show ?case by simp
next
  case (Cons row rows)
  have keep: "\<forall>r\<in>set (iptorrents_rows e cfg u rows items). row_int cfg r \<and> size_ok r"
    using Cons.prems by (rule Cons.IH)
  show ?case
  proof (cases "iptorrents_parse_row e cfg u row")
    case (Inl err)
    then have "iptorrents_rows e cfg u (row # rows) items = iptorrents_rows e cfg u rows items
                 \<or> iptorrents_rows e cfg u (row # rows) items = items"
      by simp
    with keep Cons.prems show ?thesis by metis
  next
    case (Inr res)
    show ?thesis
    proof (cases res)
      case None
      with Inr have "iptorrents_rows e cfg u (row # rows) items = iptorrents_rows e cfg u rows items"
        by simp
      with keep show ?thesis by (simp only:)
    next
      case (Some r)
      with Inr have ok: "row_int cfg r \<and> size_ok r" by (simp add: iptorrents_parse_row_int)
      from Inr Some have eq: "iptorrents_rows e cfg u (row # rows) items = iptorrents_rows e cfg u rows (items @ [r])"
        by simp
      from Cons.prems ok have "\<forall>x\<in>set (items @ [r]). row_int cfg x \<and> size_ok x" by simp
      then have "\<forall>x\<in>set (iptorrents_rows e cfg u rows (items @ [r])). row_int cfg x \<and> size_ok x"
        by (rule Cons.IH)
      with eq show ?thesis by (simp only:)
    qed
  qed
qed

lemma iptorrents_rows_ok0:
  "\<forall>r\<in>set (iptorrents_rows e cfg u rows []). row_int cfg r \<and> size_ok r"
  by (rule iptorrents_rows_ok) simp

lemma iptorrents_parse_ok:
  "\<forall>r\<in>set (iptorrents_parse e cfg u body). row_int cfg r \<and> size_ok r"
  unfolding iptorrents_parse_def Let_def
  by (simp add: iptorrents_rows_ok0)

lemma iptorrents_fetch_ok:
  assumes "iptorrents_fetch e cfg u s = (Cont rows, s')"
  shows "\<forall>r\<in>set rows. row_int cfg r \<and> size_ok r"
proof -
  from assms consider "rows = []" | body where "rows = iptorrents_parse e cfg u body"
    unfolding iptorrents_fetch_def
    by (auto split: prod.splits if_splits option.splits)
  then show ?thesis
  proof cases
    case 1
    then show ?thesis by simp
  next
    case 2
    then show ?thesis by (simp add: iptorrents_parse_ok)
  qed
qed

lemma iptorrents_page_ok:
  assumes "iptorrents_page e cfg mode q s = (Cont rows, s')"
  shows "\<forall>r\<in>set rows. row_int cfg r \<and> size_ok r"
proof -
  from assms obtain u where "iptorrents_fetch e cfg u s = (Cont rows, s')"
    unfolding iptorrents_page_def Let_def
    by (auto split: if_splits sum.splits)
  then show ?thesis by (rule iptorrents_fetch_ok)
qed

subsection \<open>Every provider\<close>

lemma page_of_ok:
  assumes "page_of p e cfg mode q s = (Cont rows, s')"
  shows "\<forall>r\<in>set rows. row_ok cfg r"
proof (cases p)
  case ABNormal
  with assms show ?thesis using abnormal_page_ok [of e cfg mode q s rows s']
    by (simp add: page_of_def row_int_row_ok)
next
  case IPTorrents
  with assms show ?thesis using iptorrents_page_ok [of e cfg mode q s rows s']
    by (simp add: page_of_def row_int_row_ok)
next
  case Ncore
  with assms show ?thesis using ncore_page_ok [of e cfg mode q s rows s']
    by (simp add: page_of_def)
next
  case Norbits
  with assms show ?thesis using norbits_page_ok [of e cfg mode q s rows s']
    by (simp add: page_of_def row_int_row_ok)
qed


lemma page_of_size_ok:
  assumes "page_of p e cfg mode q s = (Cont rows, s')" and "p \<noteq> Norbits"
  shows "\<forall>r\<in>set rows. size_ok r"
proof (cases p)
  case ABNormal
  with assms show ?thesis using abnormal_page_ok [of e cfg mode q s rows s']
    by (simp add: page_of_def)
next
  case IPTorrents
  with assms show ?thesis using iptorrents_page_ok [of e cfg mode q s rows s']
    by (simp add: page_of_def)
next
  case Ncore
  with assms show ?thesis using ncore_page_ok [of e cfg mode q s rows s']
    by (simp add: page_of_def)
next
  case Norbits
  with assms show ?thesis by simp
qed

lemma search_modes_loop:
  assumes "search p e cfg ss s = (Inr rs, s')"
  shows "rs = [] \<or> (\<exists>s1. modes_loop e (page_of p e cfg) ss [] s1 = (Inr rs, s'))"
  using assms
  unfolding search_def page_of_def abnormal_search_def iptorrents_search_def ncore_search_def
    norbits_search_def
  by (cases p) (auto split: prod.splits sum.splits if_splits)

lemma search_row_ok:
  assumes "search p e cfg search_strings s = (Inr results, s')"
  shows "\<forall>r\<in>set results. row_ok cfg r"
proof -
  from assms consider "results = []"
    | s1 where "modes_loop e (page_of p e cfg) search_strings [] s1 = (Inr results, s')"
    using search_modes_loop by blast
  then show ?thesis
  proof cases
    case 1
    then show ?thesis by simp
  next
    case 2
    show ?thesis
    proof (rule modes_loop_inv [where P = "row_ok cfg", OF _ 2])
      show "\<And>mode q s rows s'. page_of p e cfg mode q s = (Cont rows, s')
              \<Longrightarrow> \<forall>r\<in>set rows. row_ok cfg r"
        by (rule page_of_ok)
    qed simp
  qed
qed

lemma search_size_ok:
  assumes "search p e cfg search_strings s = (Inr results, s')" and "p \<noteq> Norbits"
  shows "\<forall>r\<in>set results. size_ok r"
proof -
  from assms(1) consider "results = []"
    | s1 where "modes_loop e (page_of p e cfg) search_strings [] s1 = (Inr results, s')"
    using search_modes_loop by blast
  then show ?thesis
  proof cases
    case 1
    then show ?thesis by simp
  next
    case 2
    show ?thesis
    proof (rule modes_loop_inv [where P = size_ok, OF _ 2])
      show "\<And>mode q s rows s'. page_of p e cfg mode q s = (Cont rows, s')
              \<Longrightarrow> \<forall>r\<in>set rows. size_ok r"
        using assms(2) by (rule page_of_size_ok [rotated])
    qed simp
  qed
qed

lemma strings_loop_row_ok:
  assumes "strings_loop (page_of p e cfg mode) qs [] s = (Cont items, s')"
  shows "\<forall>r\<in>set items. row_ok cfg r"
proof (rule strings_loop_inv [where page = "page_of p e cfg mode" and P = "row_ok cfg"])
  show "\<And>q s rows s'. page_of p e cfg mode q s = (Cont rows, s') \<Longrightarrow> \<forall>r\<in>set rows. row_ok cfg r"
    by (rule page_of_ok)
  show "strings_loop (page_of p e cfg mode) qs [] s = (Cont items, s')" by (rule assms)
  show "\<forall>r\<in>set []. row_ok cfg r" by simp
qed



subsection \<open>The sort\<close>




lemma sort_items_Nil: "sort_items e [] = []"
  by (simp add: sort_items_def)






subsection \<open>Norbits without credentials\<close>

lemma norbits_page_no_credentials:
  assumes "\<not> truthy (username cfg) \<or> \<not> truthy (passkey cfg)"
  shows "norbits_page e cfg mode q s = (Raise AuthException, s)"
  using assms by (auto simp: norbits_page_def norbits_check_auth_def Let_def)

lemma norbits_modes_loop_no_credentials:
  assumes bad: "\<not> truthy (username cfg) \<or> \<not> truthy (passkey cfg)"
    and some: "\<exists>m\<in>set ss. snd m \<noteq> []"
  shows "modes_loop e (norbits_page e cfg) ss results s = (Inl AuthException, s)"
  using some
proof (induction ss arbitrary: results)
  case Nil
  then show ?case by simp
next
  case (Cons m ss)
  obtain mode qs where m: "m = (mode, qs)" by (cases m)
  show ?case
  proof (cases qs)
    case Nil
    with m Cons.prems have "\<exists>m\<in>set ss. snd m \<noteq> []" by simp
    then have "modes_loop e (norbits_page e cfg) ss (results @ []) s = (Inl AuthException, s)"
      by (rule Cons.IH)
    with m Nil show ?thesis by (simp add: run_mode_def sort_items_Nil)
  next
    case (Cons q qs')
    have "norbits_page e cfg mode q s = (Raise AuthException, s)"
      using bad by (rule norbits_page_no_credentials)
    with m Cons show ?thesis by (simp add: run_mode_def)
  qed
qed

subsection \<open>The size of a row\<close>

lemma abnormal_size:
  assumes "abnormal_parse_row e cfg labels result = Inr (Some r)"
    and "(if ''Size'' \<in> set labels then list_index labels ''Size''
          else list_index labels ''Taille'') = Inr i"
    and "\<not> truthy (convert_size e (PStr (get_text (find_all ''td'' result ! i))) PNone
                     abnormal_units)"
  shows "size_val r = PInt (- 1)"
  using assms unfolding abnormal_parse_row_def Let_def
  by (clarsimp simp: and_then_Inr py_or_def split: if_splits)

lemma iptorrents_extract_size_val:
  assumes "iptorrents_extract e search_url result = Inr (ttl, dl, sd, lc, sz)"
    and "list_get (find_all ''td'' result) 5 = Inr td5"
  shows "sz = py_or (convert_size e (PStr (get_text td5)) PNone default_units) (PInt (- 1))"
  using assms unfolding iptorrents_extract_def Let_def
  by (clarsimp simp: and_then_Inr)

lemma iptorrents_size:
  assumes "iptorrents_parse_row e cfg search_url result = Inr (Some r)"
    and "list_get (find_all ''td'' result) 5 = Inr td5"
    and "\<not> truthy (convert_size e (PStr (get_text td5)) PNone default_units)"
  shows "size_val r = PInt (- 1)"
proof -
  from assms(1) obtain ttl dl sd lc sz
    where ex: "iptorrents_extract e search_url result = Inr (ttl, dl, sd, lc, sz)"
      and r: "size_val r = sz"
    unfolding iptorrents_parse_row_def and_then_Inr by (auto split: if_splits)
  from ex assms(2)
  have "sz = py_or (convert_size e (PStr (get_text td5)) PNone default_units) (PInt (- 1))"
    by (rule iptorrents_extract_size_val)
  with assms(3) r show ?thesis by (simp add: py_or_def)
qed

lemma ncore_size:
  assumes "ncore_parse_item e cfg it = Inr (Some r)"
    and "py_pop_default it ''size'' (PInt (- 1)) = Inr sz"
    and "\<not> truthy (convert_size e sz PNone default_units)"
  shows "size_val r = PInt (- 1)"
  using assms unfolding ncore_parse_item_def Let_def
  by (clarsimp simp: and_then_Inr py_pop_Inr py_or_def split: if_splits)

text \<open>A row that passes every test is emitted; with a false size, with -1.\<close>

lemma ncore_emits:
  assumes "py_pop it ''release_name'' = Inr t" and "truthy t"
    and "py_pop it ''download_url'' = Inr d" and "truthy d"
    and "py_pop it ''seeders'' = Inr sd" and "py_pop it ''leechers'' = Inr lc"
    and "py_lt sd (minseed cfg) = Inr False" and "py_lt lc (minleech cfg) = Inr False"
    and "py_pop_default it ''size'' (PInt (- 1)) = Inr sz"
    and "\<not> truthy (convert_size e sz PNone default_units)"
  shows "ncore_parse_item e cfg it
           = Inr (Some \<lparr>title = t, link = d, size_val = PInt (- 1), seeders = sd,
                          leechers = lc, hash = PStr []\<rparr>)"
  using assms by (simp add: ncore_parse_item_def py_or_def)

lemma abnormal_emits:
  assumes "length labels \<le> length (find_all ''td'' result)"
    and "list_index labels ''Release'' = Inr ti" and "list_index labels ''DL'' = Inr di"
    and "find_first (\<lambda>d. tag_name d = Some ''a'' \<and> has_class ''tooltip'' d)
           (find_all ''td'' result ! di) = Some a"
    and "tag_attr a ''href'' = Some h"
    and "get_text_strip (find_all ''td'' result ! ti) \<noteq> []"
    and "urljoin e abnormal_url h \<noteq> []"
    and "list_index labels ''S'' = Inr si" and "list_index labels ''L'' = Inr li"
    and "minseed cfg \<le> try_int e (PStr (get_text_strip (find_all ''td'' result ! si)))"
    and "minleech cfg \<le> try_int e (PStr (get_text_strip (find_all ''td'' result ! li)))"
    and "(if ''Size'' \<in> set labels then list_index labels ''Size''
          else list_index labels ''Taille'') = Inr i"
    and "\<not> truthy (convert_size e (PStr (get_text (find_all ''td'' result ! i))) PNone
                     abnormal_units)"
  shows "abnormal_parse_row e cfg labels result
           = Inr (Some \<lparr>title = PStr (get_text_strip (find_all ''td'' result ! ti)),
                          link = PStr (urljoin e abnormal_url h), size_val = PInt (- 1),
                          seeders = PInt (try_int e (PStr (get_text_strip
                                                             (find_all ''td'' result ! si)))),
                          leechers = PInt (try_int e (PStr (get_text_strip
                                                              (find_all ''td'' result ! li)))),
                          hash = PStr []\<rparr>)"
  using assms unfolding abnormal_parse_row_def Let_def
  by (simp add: py_or_def not_less [symmetric] del: not_less)

lemma iptorrents_emits:
  assumes "list_get (find_all ''td'' result) 1 = Inr td1"
    and "find_first (\<lambda>d. tag_name d = Some ''a'') td1 = Some a1"
    and "list_get (find_all ''td'' result) 3 = Inr td3"
    and "find_first (\<lambda>d. tag_name d = Some ''a'') td3 = Some a3"
    and "tag_attr a3 ''href'' = Some h"
    and "find_first (\<lambda>d. tag_name d = Some ''td'' \<and> has_class ''ac t_seeders'' d) result
           = Some std"
    and "py_int e (get_text std) = Inr sd"
    and "find_first (\<lambda>d. tag_name d = Some ''td'' \<and> has_class ''ac t_leechers'' d) result
           = Some ltd"
    and "py_int e (get_text ltd) = Inr lc"
    and "list_get (find_all ''td'' result) 5 = Inr td5"
    and "get_text a1 \<noteq> []" and "urljoin e search_url h \<noteq> []"
    and "minseed cfg \<le> sd" and "minleech cfg \<le> lc"
    and "\<not> truthy (convert_size e (PStr (get_text td5)) PNone default_units)"
  shows "iptorrents_parse_row e cfg search_url result
           = Inr (Some \<lparr>title = PStr (get_text a1), link = PStr (urljoin e search_url h),
                          size_val = PInt (- 1), seeders = PInt sd, leechers = PInt lc,
                          hash = PStr []\<rparr>)"
  using assms unfolding iptorrents_parse_row_def iptorrents_extract_def Let_def
  by (simp add: py_or_def not_less [symmetric] del: not_less)

subsection \<open>Norbits and the credentials marker\<close>

lemma norbits_check_auth_from_data_dict:
  "norbits_check_auth_from_data (PDict kvs) = Inr True"
  by (simp add: norbits_check_auth_from_data_def)

lemma norbits_check_auth_from_data_not_False:
  "norbits_check_auth_from_data v \<noteq> Inr False"
  by (cases v) (simp_all add: norbits_check_auth_from_data_def)

subsection \<open>The sample runs\<close>

lemma abnormal_run:
  "fst (search ABNormal abnormal_env sample_cfg sample_query signed_in) = Inr abnormal_results"
  by code_simp

lemma iptorrents_run:
  "fst (search IPTorrents iptorrents_env sample_cfg sample_query signed_in)
     = Inr iptorrents_results"
  by code_simp

lemma ncore_run:
  "fst (search Ncore ncore_env sample_cfg sample_query fresh) = Inr ncore_results"
  by code_simp



lemma silent_logins:
  "fst (abnormal_login silent_env sample_cfg fresh) = Inr False"
  "fst (iptorrents_login silent_env sample_cfg fresh) = Inr False"
  "fst (ncore_login silent_env sample_cfg fresh) = Inr False"
  by code_simp+

lemma sample_rows:
  "abnormal_parse_row abnormal_env sample_cfg abnormal_labels
     (abnormal_tr ''Show.S01E01.B'' ''/dl/2'' ''0 O'' ''12'' ''3'')
     = Inr (Some (hit ''Show.S01E01.B'' ''https://abnormal.ws/dl/2'' (- 1) 12 3 []))"
  "iptorrents_parse_row iptorrents_env sample_cfg ''https://iptorrents.eu''
     (iptorrents_tr ''Show.S01E01.B'' ''/download.php/2/b.torrent'' ''0 B'' ''12'' ''3'')
     = Inr (Some (hit ''Show.S01E01.B'' ''https://iptorrents.eu/download.php/2/b.torrent''
                    (- 1) 12 3 []))"
  "ncore_parse_item ncore_env sample_cfg
     (ncore_item ''Show.S01E01.C'' ''http://x/d/3'' (PInt 12) 2 0)
     = Inr (Some (hit ''Show.S01E01.C'' ''http://x/d/3'' (- 1) 12 2 []))"
  by code_simp+

lemma sample_sizes:
  "(if ''Size'' \<in> set abnormal_labels then list_index abnormal_labels ''Size''
    else list_index abnormal_labels ''Taille'') = Inr 2"
  "convert_size abnormal_env
     (PStr (get_text (find_all ''td''
        (abnormal_tr ''Show.S01E01.B'' ''/dl/2'' ''0 O'' ''12'' ''3'') ! 2))) PNone abnormal_units
     = PInt 0"
  "list_get (find_all ''td''
      (iptorrents_tr ''Show.S01E01.B'' ''/download.php/2/b.torrent'' ''0 B'' ''12'' ''3'')) 5
     = Inr (cell ''0 B'')"
  "convert_size iptorrents_env (PStr (get_text (cell ''0 B''))) PNone default_units = PInt 0"
  "py_pop_default (ncore_item ''Show.S01E01.C'' ''http://x/d/3'' (PInt 12) 2 0) ''size''
     (PInt (- 1)) = Inr (PInt 0)"
  "convert_size ncore_env (PInt 0) PNone default_units = PInt 0"
  by code_simp+

lemma ncore_float_runs:
  "fst (search Ncore ncore_nan_env sample_cfg sample_query fresh)
     = Inr [raw_hit ''Show.S01E01.A'' ''http://x/d/1'' 104857600 (PFloat NaN) 2]"
  "fst (search Ncore ncore_float_env sample_cfg sample_query fresh)
     = Inr [raw_hit ''Show.S01E01.A'' ''http://x/d/1'' 104857600 (PFloat (Finite 21 2)) 2,
            raw_hit ''Show.S01E01.B'' ''http://x/d/2'' 104857600 (PFloat (Finite 23 2)) 2]"
  by code_simp+

text \<open>The tests that the three rows with size 0 pass, and the fields read from them.\<close>

lemma abnormal_sample_tests:
  "length abnormal_labels
     \<le> length (find_all ''td'' (abnormal_tr ''Show.S01E01.B'' ''/dl/2'' ''0 O'' ''12'' ''3''))"
  "list_index abnormal_labels ''Release'' = Inr 0"
  "list_index abnormal_labels ''DL'' = Inr 1"
  "find_first (\<lambda>d. tag_name d = Some ''a'' \<and> has_class ''tooltip'' d)
     (find_all ''td'' (abnormal_tr ''Show.S01E01.B'' ''/dl/2'' ''0 O'' ''12'' ''3'') ! 1)
     = Some (Tag ''a'' [''tooltip''] [(''href'', ''/dl/2'')] [])"
  "tag_attr (Tag ''a'' [''tooltip''] [(''href'', ''/dl/2'')] []) ''href'' = Some ''/dl/2''"
  "get_text_strip (find_all ''td'' (abnormal_tr ''Show.S01E01.B'' ''/dl/2'' ''0 O'' ''12'' ''3'') ! 0)
     \<noteq> []"
  "urljoin abnormal_env abnormal_url ''/dl/2'' \<noteq> []"
  "list_index abnormal_labels ''S'' = Inr 3"
  "list_index abnormal_labels ''L'' = Inr 4"
  "minseed sample_cfg
     \<le> try_int abnormal_env (PStr (get_text_strip
           (find_all ''td'' (abnormal_tr ''Show.S01E01.B'' ''/dl/2'' ''0 O'' ''12'' ''3'') ! 3)))"
  "minleech sample_cfg
     \<le> try_int abnormal_env (PStr (get_text_strip
           (find_all ''td'' (abnormal_tr ''Show.S01E01.B'' ''/dl/2'' ''0 O'' ''12'' ''3'') ! 4)))"
  by code_simp+

lemma abnormal_sample_fields:
  "\<lparr>title = PStr (get_text_strip
              (find_all ''td'' (abnormal_tr ''Show.S01E01.B'' ''/dl/2'' ''0 O'' ''12'' ''3'') ! 0)),
    link = PStr (urljoin abnormal_env abnormal_url ''/dl/2''), size_val = PInt (- 1),
    seeders = PInt (try_int abnormal_env (PStr (get_text_strip
                (find_all ''td'' (abnormal_tr ''Show.S01E01.B'' ''/dl/2'' ''0 O'' ''12'' ''3'') ! 3)))),
    leechers = PInt (try_int abnormal_env (PStr (get_text_strip
                (find_all ''td'' (abnormal_tr ''Show.S01E01.B'' ''/dl/2'' ''0 O'' ''12'' ''3'') ! 4)))),
    hash = PStr []\<rparr>
     = hit ''Show.S01E01.B'' ''https://abnormal.ws/dl/2'' (- 1) 12 3 []"
  by code_simp

lemma iptorrents_sample_tests:
  "list_get (find_all ''td''
      (iptorrents_tr ''Show.S01E01.B'' ''/download.php/2/b.torrent'' ''0 B'' ''12'' ''3'')) 1
     = Inr (Tag ''td'' [] [] [Tag ''a'' [] [] [NavigableString ''Show.S01E01.B'']])"
  "find_first (\<lambda>d. tag_name d = Some ''a'')
     (Tag ''td'' [] [] [Tag ''a'' [] [] [NavigableString ''Show.S01E01.B'']])
     = Some (Tag ''a'' [] [] [NavigableString ''Show.S01E01.B''])"
  "list_get (find_all ''td''
      (iptorrents_tr ''Show.S01E01.B'' ''/download.php/2/b.torrent'' ''0 B'' ''12'' ''3'')) 3
     = Inr (Tag ''td'' [] [] [Tag ''a'' [] [(''href'', ''/download.php/2/b.torrent'')] []])"
  "find_first (\<lambda>d. tag_name d = Some ''a'')
     (Tag ''td'' [] [] [Tag ''a'' [] [(''href'', ''/download.php/2/b.torrent'')] []])
     = Some (Tag ''a'' [] [(''href'', ''/download.php/2/b.torrent'')] [])"
  "tag_attr (Tag ''a'' [] [(''href'', ''/download.php/2/b.torrent'')] []) ''href''
     = Some ''/download.php/2/b.torrent''"
  "find_first (\<lambda>d. tag_name d = Some ''td'' \<and> has_class ''ac t_seeders'' d)
     (iptorrents_tr ''Show.S01E01.B'' ''/download.php/2/b.torrent'' ''0 B'' ''12'' ''3'')
     = Some (Tag ''td'' [''ac'', ''t_seeders''] [] [NavigableString ''12''])"
  "py_int iptorrents_env (get_text (Tag ''td'' [''ac'', ''t_seeders''] [] [NavigableString ''12'']))
     = Inr 12"
  "find_first (\<lambda>d. tag_name d = Some ''td'' \<and> has_class ''ac t_leechers'' d)
     (iptorrents_tr ''Show.S01E01.B'' ''/download.php/2/b.torrent'' ''0 B'' ''12'' ''3'')
     = Some (Tag ''td'' [''ac'', ''t_leechers''] [] [NavigableString ''3''])"
  "py_int iptorrents_env (get_text (Tag ''td'' [''ac'', ''t_leechers''] [] [NavigableString ''3'']))
     = Inr 3"
  "get_text (Tag ''a'' [] [] [NavigableString ''Show.S01E01.B'']) \<noteq> []"
  "urljoin iptorrents_env ''https://iptorrents.eu'' ''/download.php/2/b.torrent'' \<noteq> []"
  "minseed sample_cfg \<le> 12"
  "minleech sample_cfg \<le> 3"
  by code_simp+

lemma iptorrents_sample_fields:
  "\<lparr>title = PStr (get_text (Tag ''a'' [] [] [NavigableString ''Show.S01E01.B''])),
    link = PStr (urljoin iptorrents_env ''https://iptorrents.eu'' ''/download.php/2/b.torrent''),
    size_val = PInt (- 1), seeders = PInt 12, leechers = PInt 3, hash = PStr []\<rparr>
     = hit ''Show.S01E01.B'' ''https://iptorrents.eu/download.php/2/b.torrent'' (- 1) 12 3 []"
  by code_simp

lemma ncore_sample_tests:
  "py_pop (ncore_item ''Show.S01E01.C'' ''http://x/d/3'' (PInt 12) 2 0) ''release_name''
     = Inr (PStr ''Show.S01E01.C'')"
  "truthy (PStr ''Show.S01E01.C'')"
  "py_pop (ncore_item ''Show.S01E01.C'' ''http://x/d/3'' (PInt 12) 2 0) ''download_url''
     = Inr (PStr ''http://x/d/3'')"
  "truthy (PStr ''http://x/d/3'')"
  "py_pop (ncore_item ''Show.S01E01.C'' ''http://x/d/3'' (PInt 12) 2 0) ''seeders'' = Inr (PInt 12)"
  "py_pop (ncore_item ''Show.S01E01.C'' ''http://x/d/3'' (PInt 12) 2 0) ''leechers'' = Inr (PInt 2)"
  "py_lt (PInt 12) (minseed sample_cfg) = Inr False"
  "py_lt (PInt 2) (minleech sample_cfg) = Inr False"
  by code_simp+

lemma ncore_sample_fields:
  "\<lparr>title = PStr ''Show.S01E01.C'', link = PStr ''http://x/d/3'', size_val = PInt (- 1),
    seeders = PInt 12, leechers = PInt 2, hash = PStr []\<rparr>
     = hit ''Show.S01E01.C'' ''http://x/d/3'' (- 1) 12 2 []"
  by code_simp

section \<open>The claims\<close>

text \<open>
  C1. For every provider and every mapping of search strings, every record in the list
  that \<open>search\<close> returns has a title and a link that are not empty (that are true in
  Python's sense, so neither \<^verbatim>\<open>''\<close> nor \<^verbatim>\<open>None\<close>): a row without one of them is
  dropped while parsing.
\<close>

theorem search_results_have_title_and_link:
  assumes "search p e cfg search_strings s = (Inr results, s')"
    and "r \<in> set results"
  shows "truthy (title r) \<and> truthy (link r) \<and> title r \<noteq> PStr [] \<and> link r \<noteq> PStr []"
proof -
  from assms have "row_ok cfg r" using search_row_ok by blast
  then show ?thesis by (auto simp: row_ok_def)
qed

text \<open>C1 on the ABNormal sample page, for the record of the first row.\<close>

theorem search_results_have_title_and_link_witness:
  "fst (search ABNormal abnormal_env sample_cfg sample_query signed_in) = Inr abnormal_results
   \<and> truthy (title (hit ''Show.S01E01.A'' ''https://abnormal.ws/dl/1'' 1610612736 7 3 []))
   \<and> truthy (link (hit ''Show.S01E01.A'' ''https://abnormal.ws/dl/1'' 1610612736 7 3 []))
   \<and> title (hit ''Show.S01E01.A'' ''https://abnormal.ws/dl/1'' 1610612736 7 3 []) \<noteq> PStr []
   \<and> link (hit ''Show.S01E01.A'' ''https://abnormal.ws/dl/1'' 1610612736 7 3 []) \<noteq> PStr []"
proof -
  let ?run = "search ABNormal abnormal_env sample_cfg sample_query signed_in"
  let ?a = "hit ''Show.S01E01.A'' ''https://abnormal.ws/dl/1'' 1610612736 7 3 []"
  have run: "?run = (Inr abnormal_results, snd ?run)"
    using abnormal_run by (simp add: prod_eq_iff)
  have mem: "?a \<in> set abnormal_results" by (simp add: abnormal_results_def)
  from search_results_have_title_and_link [OF run mem] abnormal_run show ?thesis by simp
qed







text \<open>
  C4. The claim: a fetch with an empty or false body, also when the transport returns
  nothing, counts as no results for that search string; \<open>search\<close> raises nothing and
  goes on with the remaining search strings and modes. ABNormal and IPTorrents do so
  (\<^verbatim>\<open>if not data: continue\<close>). Norbits executes \<^verbatim>\<open>return results\<close> instead: the
  records found by the earlier search strings of the mode are lost and the remaining
  strings and modes are not searched. Ncore passes the body to \<^verbatim>\<open>json.loads\<close> before
  any test, and \<^verbatim>\<open>json.loads(None)\<close> raises a TypeError that its
  \<^verbatim>\<open>except ValueError\<close> does not catch. Below, the first search string finds three
  records on Norbits and two on Ncore, and the network does not answer the second one.
\<close>

theorem empty_fetch_stops_norbits_and_ncore:
  "fst (search Norbits norbits_env sample_cfg sample_query fresh) = Inr norbits_results
   \<and> fst (search Norbits norbits_env sample_cfg two_queries fresh) = Inr []
   \<and> fst (search Ncore ncore_env sample_cfg sample_query fresh) = Inr ncore_results
   \<and> fst (search Ncore ncore_env sample_cfg two_queries fresh) = Inl TypeError"
  by code_simp

text \<open>
  C5. When the jar holds a cookie with a value that is not empty, the login
  of ABNormal returns true and leaves the session as it is, and so does the login of
  IPTorrents when the jar holds \<^verbatim>\<open>uid\<close> and \<^verbatim>\<open>pass\<close> cookies that are not empty: no
  request is sent and the transport is not consulted. The login of Ncore never looks at
  the session: every call sends exactly one request, the login form.
\<close>

theorem login_with_session_makes_no_request:
  "((\<exists>name v. (name, v) \<in> set (cookies s) \<and> v \<noteq> [])
      \<longrightarrow> abnormal_login e cfg s = (Inr True, s))
   \<and> ((\<exists>u pw. map_of (cookies s) ''uid'' = Some u \<and> u \<noteq> []
               \<and> map_of (cookies s) ''pass'' = Some pw \<and> pw \<noteq> [])
      \<longrightarrow> iptorrents_login e cfg s = (Inr True, s))
   \<and> sent (snd (ncore_login e cfg s))
       = sent s @ [\<lparr>url = ncore_login_url, params = [],
                    post_data = PDict [(''nev'', username cfg), (''pass'', password cfg),
                                       (''submitted'', PStr ''1'')]\<rparr>]"
proof (intro conjI impI)
  assume "\<exists>name v. (name, v) \<in> set (cookies s) \<and> v \<noteq> []"
  then have "list_ex (\<lambda>kv. snd kv \<noteq> []) (cookies s)"
    by (force simp: list_ex_iff)
  then show "abnormal_login e cfg s = (Inr True, s)"
    by (simp add: abnormal_login_def)
next
  assume "\<exists>u pw. map_of (cookies s) ''uid'' = Some u \<and> u \<noteq> []
            \<and> map_of (cookies s) ''pass'' = Some pw \<and> pw \<noteq> []"
  then show "iptorrents_login e cfg s = (Inr True, s)"
    by (auto simp: iptorrents_login_def)
next
  show "sent (snd (ncore_login e cfg s))
          = sent s @ [\<lparr>url = ncore_login_url, params = [],
                       post_data = PDict [(''nev'', username cfg), (''pass'', password cfg),
                                          (''submitted'', PStr ''1'')]\<rparr>]"
    by (simp add: ncore_login_def get_url_text_def Let_def split: option.splits)
qed

text \<open>C5 on a session with both cookies and a network that would not answer.\<close>

theorem login_with_session_makes_no_request_witness:
  "(''uid'', ''42'') \<in> set (cookies signed_in) \<and> ''42'' \<noteq> []
   \<and> map_of (cookies signed_in) ''uid'' = Some ''42''
   \<and> map_of (cookies signed_in) ''pass'' = Some ''s3cr3t'' \<and> ''s3cr3t'' \<noteq> []
   \<and> abnormal_login silent_env sample_cfg signed_in = (Inr True, signed_in)
   \<and> iptorrents_login silent_env sample_cfg signed_in = (Inr True, signed_in)"
proof -
  have a: "\<exists>name v. (name, v) \<in> set (cookies signed_in) \<and> v \<noteq> []"
    by (simp add: signed_in_def) blast
  have b: "\<exists>u pw. map_of (cookies signed_in) ''uid'' = Some u \<and> u \<noteq> []
             \<and> map_of (cookies signed_in) ''pass'' = Some pw \<and> pw \<noteq> []"
    by (simp add: signed_in_def)
  from login_with_session_makes_no_request [of signed_in silent_env sample_cfg] a b
  show ?thesis by (simp add: signed_in_def)
qed

text \<open>
  C5 does not hold for Ncore: with cookies in the jar its login still sends the login
  form.
\<close>

theorem ncore_login_ignores_session_counterexample:
  "map_of (cookies signed_in) ''uid'' = Some ''42''
   \<and> map_of (cookies signed_in) ''pass'' = Some ''s3cr3t''
   \<and> fst (ncore_login ncore_env sample_cfg signed_in) = Inr True
   \<and> sent signed_in = []
   \<and> sent (snd (ncore_login ncore_env sample_cfg signed_in))
       = [\<lparr>url = ''https://ncore.cc/login.php'', params = [],
           post_data = PDict [(''nev'', PStr ''user''), (''pass'', PStr ''secret''),
                              (''submitted'', PStr ''1'')]\<rparr>]"
  by code_simp

text \<open>
  C6. The claim: a failure to parse is recovered row by row, and a body that cannot be
  parsed at all gives no rows and no exception. ABNormal does so. Norbits logs that the
  answer "is not correct, not parsing it" when it has no \<^verbatim>\<open>data\<close>, and then calls
  \<^verbatim>\<open>.get\<close> on the empty string all the same: \<open>search\<close> raises AttributeError. In
  IPTorrents a row whose seeders are not a number raises ValueError, which the handler of
  the row does not list: the rows after it are not visited (below, the good row D after
  the bad row C).
\<close>

theorem unparseable_answer_is_not_recovered:
  "fst (search Norbits norbits_rejecting_env sample_cfg sample_query fresh) = Inl AttributeError
   \<and> iptorrents_rows iptorrents_env sample_cfg ''https://iptorrents.eu''
       [iptorrents_tr ''Show.S01E01.D'' ''/download.php/4/d.torrent'' ''1.5 GB'' ''9'' ''3''] []
       = [hit ''Show.S01E01.D'' ''https://iptorrents.eu/download.php/4/d.torrent''
            1610612736 9 3 []]
   \<and> iptorrents_rows iptorrents_env sample_cfg ''https://iptorrents.eu''
       [iptorrents_tr ''Show.S01E01.C'' ''/download.php/3/c.torrent'' ''1.5 GB'' ''-'' ''3'',
        iptorrents_tr ''Show.S01E01.D'' ''/download.php/4/d.torrent'' ''1.5 GB'' ''9'' ''3''] []
       = []"
  by code_simp

text \<open>
  C7. The claim: when the configured username or passkey of Norbits is missing and the
  mapping has at least one search string, \<open>search\<close> raises AuthException instead of
  returning a list; and this is the only error that is not swallowed. The first half
  holds, and no request is sent before the exception. The second half does not: Norbits
  has no handler around its parsing, so with both credentials configured an answer whose
  torrent list is \<^verbatim>\<open>null\<close> makes \<open>search\<close> raise TypeError.
\<close>

theorem norbits_errors_reach_the_caller:
  "((\<not> truthy (username cfg) \<or> \<not> truthy (passkey cfg))
      \<longrightarrow> (\<exists>m\<in>set search_strings. snd m \<noteq> [])
      \<longrightarrow> norbits_search e cfg search_strings s = (Inl AuthException, s))
   \<and> truthy (username sample_cfg) \<and> truthy (passkey sample_cfg)
   \<and> fst (norbits_search norbits_null_env sample_cfg sample_query fresh) = Inl TypeError"
proof (intro conjI impI)
  assume "\<not> truthy (username cfg) \<or> \<not> truthy (passkey cfg)"
    and "\<exists>m\<in>set search_strings. snd m \<noteq> []"
  then show "norbits_search e cfg search_strings s = (Inl AuthException, s)"
    unfolding norbits_search_def by (rule norbits_modes_loop_no_credentials)
qed code_simp+

text \<open>C7 with an empty passkey, and a mode without search strings before the first string.\<close>

theorem norbits_errors_reach_the_caller_witness:
  "\<not> truthy (passkey no_passkey_cfg)
   \<and> snd (''Episode'', [''Show S01E01'']) \<noteq> []
   \<and> norbits_search norbits_env no_passkey_cfg [(''RSS'', []), (''Episode'', [''Show S01E01''])] fresh
       = (Inl AuthException, fresh)"
proof -
  have bad: "\<not> truthy (passkey no_passkey_cfg)"
    by (simp add: no_passkey_cfg_def sample_cfg_def)
  have some: "\<exists>m\<in>set [(''RSS'', []), (''Episode'', [''Show S01E01''])]. snd m \<noteq> []"
    by simp
  from norbits_errors_reach_the_caller
         [of no_passkey_cfg "[(''RSS'', []), (''Episode'', [''Show S01E01''])]" norbits_env fresh]
       bad some
  show ?thesis by simp
qed

text \<open>
  C8. For ABNormal, IPTorrents and Ncore, when \<open>login\<close> returns false, \<open>search\<close>
  returns the empty list and raises nothing, and the session is the one \<open>login\<close> left:
  no request is sent for a search.
\<close>

theorem failed_login_gives_empty_result:
  "(abnormal_login e cfg s = (Inr False, s')
      \<longrightarrow> search ABNormal e cfg search_strings s = (Inr [], s'))
   \<and> (iptorrents_login e cfg s = (Inr False, s')
      \<longrightarrow> search IPTorrents e cfg search_strings s = (Inr [], s'))
   \<and> (ncore_login e cfg s = (Inr False, s')
      \<longrightarrow> search Ncore e cfg search_strings s = (Inr [], s'))"
  by (simp add: search_def abnormal_search_def iptorrents_search_def ncore_search_def)

text \<open>C8 on a network that never answers, where every login fails.\<close>

theorem failed_login_gives_empty_result_witness:
  "fst (abnormal_login silent_env sample_cfg fresh) = Inr False
   \<and> fst (iptorrents_login silent_env sample_cfg fresh) = Inr False
   \<and> fst (ncore_login silent_env sample_cfg fresh) = Inr False
   \<and> search ABNormal silent_env sample_cfg sample_query fresh
       = (Inr [], snd (abnormal_login silent_env sample_cfg fresh))
   \<and> search IPTorrents silent_env sample_cfg sample_query fresh
       = (Inr [], snd (iptorrents_login silent_env sample_cfg fresh))
   \<and> search Ncore silent_env sample_cfg sample_query fresh
       = (Inr [], snd (ncore_login silent_env sample_cfg fresh))"
proof -
  have a: "abnormal_login silent_env sample_cfg fresh
             = (Inr False, snd (abnormal_login silent_env sample_cfg fresh))"
    using silent_logins(1) by (simp add: prod_eq_iff)
  have b: "iptorrents_login silent_env sample_cfg fresh
             = (Inr False, snd (iptorrents_login silent_env sample_cfg fresh))"
    using silent_logins(2) by (simp add: prod_eq_iff)
  have c: "ncore_login silent_env sample_cfg fresh
             = (Inr False, snd (ncore_login silent_env sample_cfg fresh))"
    using silent_logins(3) by (simp add: prod_eq_iff)
  from failed_login_gives_empty_result
         [of silent_env sample_cfg fresh "snd (abnormal_login silent_env sample_cfg fresh)"
             sample_query]
       failed_login_gives_empty_result
         [of silent_env sample_cfg fresh "snd (iptorrents_login silent_env sample_cfg fresh)"
             sample_query]
       failed_login_gives_empty_result
         [of silent_env sample_cfg fresh "snd (ncore_login silent_env sample_cfg fresh)"
             sample_query]
       a b c silent_logins
  show ?thesis by blast
qed

text \<open>
  C9. \<^verbatim>\<open>_check_auth_from_data\<close> of Norbits never returns false: it returns
  true or raises. It returns true for every mapping, also one whose status is 3 with a
  message. For a mapping, the outcome of parsing depends on its \<^verbatim>\<open>data\<close> entry only:
  the invalid-credentials marker neither prevents the parsing nor changes the rows.
\<close>

theorem check_auth_from_data_never_rejects:
  "norbits_check_auth_from_data v \<noteq> Inr False
   \<and> norbits_check_auth_from_data (PDict kvs) = Inr True
   \<and> (map_of kvs ''data'' = map_of kvs' ''data''
        \<longrightarrow> norbits_parse e cfg (PDict kvs) = norbits_parse e cfg (PDict kvs'))"
  by (simp add: norbits_check_auth_from_data_not_False norbits_check_auth_from_data_dict
      norbits_parse_def)

text \<open>C9 on an answer with the marker and a torrent list, against the list alone.\<close>

theorem check_auth_from_data_never_rejects_witness:
  "map_of norbits_flagged ''data'' = map_of norbits_plain ''data''
   \<and> norbits_check_auth_from_data (PDict norbits_flagged) = Inr True
   \<and> norbits_parse norbits_env sample_cfg (PDict norbits_flagged)
       = norbits_parse norbits_env sample_cfg (PDict norbits_plain)"
proof -
  have same: "map_of norbits_flagged ''data'' = map_of norbits_plain ''data''"
    by (simp add: norbits_flagged_def norbits_plain_def)
  from check_auth_from_data_never_rejects
         [of PNone norbits_flagged norbits_plain norbits_env sample_cfg] same
  show ?thesis by blast
qed

text \<open>
  C9 does not hold for every input: a decoded answer that is a number makes
  \<^verbatim>\<open>'status' in parsed_json\<close> raise TypeError.
\<close>

theorem check_auth_from_data_raises_counterexample:
  "norbits_check_auth_from_data (PInt 5) = Inl TypeError"
  by code_simp

text \<open>
  C10. In ABNormal, IPTorrents and Ncore, a row that passes the tests of the provider
  and whose size the conversion turns into 0 or another false value is emitted, and its
  record has size -1; and whenever a row is emitted and the conversion of its size is
  false, the size of the record is -1. So no record that \<open>search\<close> returns for these
  providers has a false size: a size of zero bytes and an unknown size are both -1.
\<close>

theorem falsy_size_becomes_minus_one:
  "(length labels \<le> length (find_all ''td'' result)
      \<longrightarrow> list_index labels ''Release'' = Inr ti \<longrightarrow> list_index labels ''DL'' = Inr di
      \<longrightarrow> find_first (\<lambda>d. tag_name d = Some ''a'' \<and> has_class ''tooltip'' d)
            (find_all ''td'' result ! di) = Some a
      \<longrightarrow> tag_attr a ''href'' = Some h
      \<longrightarrow> get_text_strip (find_all ''td'' result ! ti) \<noteq> []
      \<longrightarrow> urljoin e abnormal_url h \<noteq> []
      \<longrightarrow> list_index labels ''S'' = Inr si \<longrightarrow> list_index labels ''L'' = Inr li
      \<longrightarrow> minseed cfg \<le> try_int e (PStr (get_text_strip (find_all ''td'' result ! si)))
      \<longrightarrow> minleech cfg \<le> try_int e (PStr (get_text_strip (find_all ''td'' result ! li)))
      \<longrightarrow> (if ''Size'' \<in> set labels then list_index labels ''Size''
           else list_index labels ''Taille'') = Inr i
      \<longrightarrow> \<not> truthy (convert_size e (PStr (get_text (find_all ''td'' result ! i))) PNone
                        abnormal_units)
      \<longrightarrow> abnormal_parse_row e cfg labels result
            = Inr (Some \<lparr>title = PStr (get_text_strip (find_all ''td'' result ! ti)),
                         link = PStr (urljoin e abnormal_url h), size_val = PInt (- 1),
                         seeders = PInt (try_int e (PStr (get_text_strip
                                                            (find_all ''td'' result ! si)))),
                         leechers = PInt (try_int e (PStr (get_text_strip
                                                             (find_all ''td'' result ! li)))),
                         hash = PStr []\<rparr>))
   \<and> (list_get (find_all ''td'' result) 1 = Inr td1
      \<longrightarrow> find_first (\<lambda>d. tag_name d = Some ''a'') td1 = Some a1
      \<longrightarrow> list_get (find_all ''td'' result) 3 = Inr td3
      \<longrightarrow> find_first (\<lambda>d. tag_name d = Some ''a'') td3 = Some a3
      \<longrightarrow> tag_attr a3 ''href'' = Some h
      \<longrightarrow> find_first (\<lambda>d. tag_name d = Some ''td'' \<and> has_class ''ac t_seeders'' d) result
            = Some std
      \<longrightarrow> py_int e (get_text std) = Inr sd
      \<longrightarrow> find_first (\<lambda>d. tag_name d = Some ''td'' \<and> has_class ''ac t_leechers'' d) result
            = Some ltd
      \<longrightarrow> py_int e (get_text ltd) = Inr lc
      \<longrightarrow> list_get (find_all ''td'' result) 5 = Inr td5
      \<longrightarrow> get_text a1 \<noteq> [] \<longrightarrow> urljoin e search_url h \<noteq> []
      \<longrightarrow> minseed cfg \<le> sd \<longrightarrow> minleech cfg \<le> lc
      \<longrightarrow> \<not> truthy (convert_size e (PStr (get_text td5)) PNone default_units)
      \<longrightarrow> iptorrents_parse_row e cfg search_url result
            = Inr (Some \<lparr>title = PStr (get_text a1), link = PStr (urljoin e search_url h),
                         size_val = PInt (- 1), seeders = PInt sd, leechers = PInt lc,
                         hash = PStr []\<rparr>))
   \<and> (py_pop it ''release_name'' = Inr t \<longrightarrow> truthy t
      \<longrightarrow> py_pop it ''download_url'' = Inr dl \<longrightarrow> truthy dl
      \<longrightarrow> py_pop it ''seeders'' = Inr sv \<longrightarrow> py_pop it ''leechers'' = Inr lv
      \<longrightarrow> py_lt sv (minseed cfg) = Inr False \<longrightarrow> py_lt lv (minleech cfg) = Inr False
      \<longrightarrow> py_pop_default it ''size'' (PInt (- 1)) = Inr sz
      \<longrightarrow> \<not> truthy (convert_size e sz PNone default_units)
      \<longrightarrow> ncore_parse_item e cfg it
            = Inr (Some \<lparr>title = t, link = dl, size_val = PInt (- 1), seeders = sv,
                         leechers = lv, hash = PStr []\<rparr>))
   \<and> (abnormal_parse_row e cfg labels result = Inr (Some r)
      \<longrightarrow> (if ''Size'' \<in> set labels then list_index labels ''Size''
           else list_index labels ''Taille'') = Inr i
      \<longrightarrow> \<not> truthy (convert_size e (PStr (get_text (find_all ''td'' result ! i))) PNone
                        abnormal_units)
      \<longrightarrow> size_val r = PInt (- 1))
   \<and> (iptorrents_parse_row e cfg search_url result = Inr (Some r)
      \<longrightarrow> list_get (find_all ''td'' result) 5 = Inr td5
      \<longrightarrow> \<not> truthy (convert_size e (PStr (get_text td5)) PNone default_units)
      \<longrightarrow> size_val r = PInt (- 1))
   \<and> (ncore_parse_item e cfg it = Inr (Some r)
      \<longrightarrow> py_pop_default it ''size'' (PInt (- 1)) = Inr sz
      \<longrightarrow> \<not> truthy (convert_size e sz PNone default_units)
      \<longrightarrow> size_val r = PInt (- 1))
   \<and> (search p e cfg search_strings s = (Inr results, s') \<longrightarrow> p \<noteq> Norbits
      \<longrightarrow> r \<in> set results
      \<longrightarrow> truthy (size_val r) \<and> size_val r \<noteq> PInt 0 \<and> size_val r \<noteq> PNone)"
proof -
  have s1: "truthy (size_val r) \<and> size_val r \<noteq> PInt 0 \<and> size_val r \<noteq> PNone"
    if "search p e cfg search_strings s = (Inr results, s')" "p \<noteq> Norbits" "r \<in> set results"
  proof -
    from that have "truthy (size_val r)" using search_size_ok by (auto simp: size_ok_def)
    then show ?thesis by auto
  qed
  show ?thesis
    using abnormal_emits [of labels result ti di a h e si li cfg i]
      iptorrents_emits [of result td1 a1 td3 a3 h std e sd ltd lc td5 search_url cfg]
      ncore_emits [of it t dl sv lv cfg sz e]
      abnormal_size [of e cfg labels result r i]
      iptorrents_size [of e cfg search_url result r td5]
      ncore_size [of e cfg it r sz]
      s1
    by blast
qed

text \<open>
  C10 on the rows of the three sample pages whose size converts to 0: each is emitted
  with size -1; and on the Ncore sample search.
\<close>

theorem falsy_size_becomes_minus_one_witness:
  "convert_size abnormal_env
     (PStr (get_text (find_all ''td''
        (abnormal_tr ''Show.S01E01.B'' ''/dl/2'' ''0 O'' ''12'' ''3'') ! 2))) PNone abnormal_units
     = PInt 0
   \<and> abnormal_parse_row abnormal_env sample_cfg abnormal_labels
       (abnormal_tr ''Show.S01E01.B'' ''/dl/2'' ''0 O'' ''12'' ''3'')
       = Inr (Some (hit ''Show.S01E01.B'' ''https://abnormal.ws/dl/2'' (- 1) 12 3 []))
   \<and> convert_size iptorrents_env (PStr (get_text (cell ''0 B''))) PNone default_units = PInt 0
   \<and> iptorrents_parse_row iptorrents_env sample_cfg ''https://iptorrents.eu''
       (iptorrents_tr ''Show.S01E01.B'' ''/download.php/2/b.torrent'' ''0 B'' ''12'' ''3'')
       = Inr (Some (hit ''Show.S01E01.B'' ''https://iptorrents.eu/download.php/2/b.torrent''
                      (- 1) 12 3 []))
   \<and> convert_size ncore_env (PInt 0) PNone default_units = PInt 0
   \<and> ncore_parse_item ncore_env sample_cfg
       (ncore_item ''Show.S01E01.C'' ''http://x/d/3'' (PInt 12) 2 0)
       = Inr (Some (hit ''Show.S01E01.C'' ''http://x/d/3'' (- 1) 12 2 []))
   \<and> size_val (hit ''Show.S01E01.C'' ''http://x/d/3'' (- 1) 12 2 []) = PInt (- 1)
   \<and> fst (search Ncore ncore_env sample_cfg sample_query fresh) = Inr ncore_results
   \<and> Ncore \<noteq> Norbits
   \<and> truthy (size_val (hit ''Show.S01E01.C'' ''http://x/d/3'' (- 1) 12 2 []))"
proof -
  let ?run = "search Ncore ncore_env sample_cfg sample_query fresh"
  let ?c = "hit ''Show.S01E01.C'' ''http://x/d/3'' (- 1) 12 2 []"
  let ?ab = "abnormal_tr ''Show.S01E01.B'' ''/dl/2'' ''0 O'' ''12'' ''3''"
  let ?ib = "iptorrents_tr ''Show.S01E01.B'' ''/download.php/2/b.torrent'' ''0 B'' ''12'' ''3''"
  let ?nc = "ncore_item ''Show.S01E01.C'' ''http://x/d/3'' (PInt 12) 2 0"
  have zero: "\<not> truthy (PInt 0)" by simp
  have falsy:
    "\<not> truthy (convert_size abnormal_env (PStr (get_text (find_all ''td'' ?ab ! 2))) PNone
                 abnormal_units)"
    "\<not> truthy (convert_size iptorrents_env (PStr (get_text (cell ''0 B''))) PNone default_units)"
    "\<not> truthy (convert_size ncore_env (PInt 0) PNone default_units)"
    by (simp_all only: sample_sizes zero not_False_eq_True)
  have run: "?run = (Inr ncore_results, snd ?run)"
    using ncore_run by (simp add: prod_eq_iff)
  have mem: "?c \<in> set ncore_results" by (simp add: ncore_results_def)
  note parts = falsy_size_becomes_minus_one
  have a: "abnormal_parse_row abnormal_env sample_cfg abnormal_labels ?ab
             = Inr (Some (hit ''Show.S01E01.B'' ''https://abnormal.ws/dl/2'' (- 1) 12 3 []))"
    unfolding abnormal_sample_fields [symmetric]
    by (rule parts [THEN conjunct1, rule_format,
          OF abnormal_sample_tests sample_sizes(1) falsy(1)])
  have b: "iptorrents_parse_row iptorrents_env sample_cfg ''https://iptorrents.eu'' ?ib
             = Inr (Some (hit ''Show.S01E01.B'' ''https://iptorrents.eu/download.php/2/b.torrent''
                            (- 1) 12 3 []))"
    unfolding iptorrents_sample_fields [symmetric]
    by (rule parts [THEN conjunct2, THEN conjunct1, rule_format,
          OF iptorrents_sample_tests(1-9) sample_sizes(3) iptorrents_sample_tests(10-13)
             falsy(2)])
  have c: "ncore_parse_item ncore_env sample_cfg ?nc = Inr (Some ?c)"
    unfolding ncore_sample_fields [symmetric]
    by (rule parts [THEN conjunct2, THEN conjunct2, THEN conjunct1, rule_format,
          OF ncore_sample_tests sample_sizes(5) falsy(3)])
  have c': "size_val ?c = PInt (- 1)"
    by (rule parts [THEN conjunct2, THEN conjunct2, THEN conjunct2, THEN conjunct2,
          THEN conjunct2, THEN conjunct1, rule_format, OF c sample_sizes(5) falsy(3)])
  have d: "truthy (size_val ?c)"
    using parts [THEN conjunct2, THEN conjunct2, THEN conjunct2, THEN conjunct2,
          THEN conjunct2, THEN conjunct2, rule_format, OF run _ mem]
    by simp
  from a b c c' d sample_sizes(2,4,6) ncore_run show ?thesis by simp
qed

end
